theory Spec2Isabelle
  imports Complex_Main "HOL-Library.Word"
begin

section \<open>JavaScript values handled by the two edge functions\<close>

text \<open>
  Both relays are Deno handlers (\<^verbatim>\<open>serve(async (req) => ...)\<close>). The values
  they inspect come from \<^verbatim>\<open>req.json()\<close>, \<^verbatim>\<open>req.formData()\<close> and from the
  bodies of upstream responses. A parsed JSON document is a \<open>json\<close> (an object
  lists its members, each key once); the JavaScript
  value \<^verbatim>\<open>undefined\<close> is \<open>None\<close> of \<open>jsval\<close>. A \<open>JNum\<close> holds the value of
  the parsed number; the handlers only ever test a number for being zero. A \<open>char\<close>
  of a \<open>string\<close> stands for one character of the JavaScript string.
\<close>

datatype json =
    JNull
  | JBool bool
  | JNum rat
  | JStr string
  | JArr "json list"
  | JObj "(string \<times> json) list"

type_synonym jsval = "json option"

text \<open>Messages of errors that the JavaScript engine itself raises; their text is the engine's.\<close>

datatype engine_error =
    Destructure_of_null
  | Not_iterable
  | Property_of_nullish

text \<open>The \<^verbatim>\<open>message\<close> of a caught error: a text written in the source or handed over
  by a library, or an engine message.\<close>

datatype errtext = Text string | Engine engine_error

text \<open>Truthiness, as the operators \<^verbatim>\<open>!\<close>, \<^verbatim>\<open>||\<close> and \<^verbatim>\<open>&&\<close> test it.\<close>

fun truthy :: "jsval \<Rightarrow> bool" where
  "truthy None = False"
| "truthy (Some JNull) = False"
| "truthy (Some (JBool b)) = b"
| "truthy (Some (JNum q)) = (q \<noteq> 0)"
| "truthy (Some (JStr s)) = (s \<noteq> [])"
| "truthy (Some (JArr xs)) = True"
| "truthy (Some (JObj kvs)) = True"

text \<open>Truthiness of \<^verbatim>\<open>Deno.env.get(name)\<close>, a string or \<^verbatim>\<open>undefined\<close>.\<close>

fun truthy_str :: "string option \<Rightarrow> bool" where
  "truthy_str None = False"
| "truthy_str (Some s) = (s \<noteq> [])"

text \<open>The string behind a truthy \<^verbatim>\<open>Deno.env.get(name)\<close>.\<close>

fun nonempty :: "string option \<Rightarrow> string option" where
  "nonempty None = None"
| "nonempty (Some s) = (if s = [] then None else Some s)"

text \<open>
  Property read \<^verbatim>\<open>v.k\<close>: a TypeError on \<^verbatim>\<open>null\<close> and \<^verbatim>\<open>undefined\<close>, the member
  of an object, and \<^verbatim>\<open>undefined\<close> on every other value (the keys read by the handlers,
  \<^verbatim>\<open>messages chatId projectId choices message content usage id\<close>, are no built-in
  property of a string, an array, a number or a boolean).
\<close>

fun member :: "json \<Rightarrow> string \<Rightarrow> jsval" where
  "member (JObj kvs) k = map_of kvs k"
| "member v k = None"

fun get_prop :: "jsval \<Rightarrow> string \<Rightarrow> engine_error + jsval" where
  "get_prop None k = Inl Property_of_nullish"
| "get_prop (Some JNull) k = Inl Property_of_nullish"
| "get_prop (Some v) k = Inr (member v k)"

text \<open>Element read \<^verbatim>\<open>v[0]\<close>.\<close>

fun index0 :: "jsval \<Rightarrow> engine_error + jsval" where
  "index0 None = Inl Property_of_nullish"
| "index0 (Some JNull) = Inl Property_of_nullish"
| "index0 (Some (JArr xs)) = Inr (case xs of [] \<Rightarrow> None | x # _ \<Rightarrow> Some x)"
| "index0 (Some (JStr s)) = Inr (case s of [] \<Rightarrow> None | c # _ \<Rightarrow> Some (JStr [c]))"
| "index0 (Some (JObj kvs)) = Inr (map_of kvs ''0'')"
| "index0 (Some v) = Inr None"

text \<open>
  Spread \<^verbatim>\<open>...v\<close> inside an array literal: the elements of an array, the characters
  of a string, a TypeError (\<open>None\<close>) on every value that is not iterable.
\<close>

fun spread :: "jsval \<Rightarrow> json list option" where
  "spread (Some (JArr xs)) = Some xs"
| "spread (Some (JStr s)) = Some (map (\<lambda>c. JStr [c]) s)"
| "spread v = None"

text \<open>Template-string rendering \<^verbatim>\<open>${n}\<close> of a non-negative integer.\<close>

fun decimal :: "nat \<Rightarrow> string" where
  "decimal n =
     (if n < 10 then [''0123456789'' ! n]
      else decimal (n div 10) @ [''0123456789'' ! (n mod 10)])"

declare decimal.simps [simp del]

text \<open>\<^verbatim>\<open>s.split(c)\<close> for a one-character separator, and \<^verbatim>\<open>xs.pop()\<close>.\<close>

fun split_on :: "char \<Rightarrow> string \<Rightarrow> string list" where
  "split_on c [] = [[]]"
| "split_on c (x # xs) =
     (if x = c then [] # split_on c xs
      else (case split_on c xs of
              [] \<Rightarrow> [[x]]
            | y # ys \<Rightarrow> (x # y) # ys))"

definition pop :: "'a list \<Rightarrow> 'a option" where
  "pop xs = (if xs = [] then None else Some (last xs))"

text \<open>
  \<^verbatim>\<open>path.replace(/^\/|\/$/g, '').replace(/\/+/g, '/')\<close>: one leading and one trailing
  slash dropped, then every run of slashes made one. The storage client of the examples
  cleans a path so before it writes.
\<close>

fun collapse_slashes :: "string \<Rightarrow> string" where
  "collapse_slashes (a # b # s) =
     (if a = CHR ''/'' \<and> b = CHR ''/'' then collapse_slashes (b # s)
      else a # collapse_slashes (b # s))"
| "collapse_slashes s = s"

definition trim_slashes :: "string \<Rightarrow> string" where
  "trim_slashes s =
     (let s1 = (case s of [] \<Rightarrow> [] | c # r \<Rightarrow> if c = CHR ''/'' then r else s)
      in if s1 \<noteq> [] \<and> last s1 = CHR ''/'' then butlast s1 else s1)"

definition clean_path :: "string \<Rightarrow> string" where
  "clean_path path = collapse_slashes (trim_slashes path)"

text \<open>The outcome of parsing a body: the parser's error message, or the value.\<close>

datatype 'a parsed = Parse_error string | Parsed 'a

text \<open>
  The outcome of \<^verbatim>\<open>await fetch(...)\<close>: the promise rejects with a message, or it
  resolves to a response with its status, its body as text (\<^verbatim>\<open>response.text()\<close>) and its
  body as JSON (\<^verbatim>\<open>response.json()\<close>).
\<close>

datatype fetch_result = Rejected string | Resp nat string "json parsed"

definition response_ok :: "nat \<Rightarrow> bool" where
  "response_ok status = (200 \<le> status \<and> status \<le> 299)"

section \<open>The schema\<close>

text \<open>
  The tables of the migration, with the columns the relays and the policies read or
  write. Generated columns (\<^verbatim>\<open>id\<close> of messages and files, the timestamps) and the
  descriptive columns of projects and chats are left out. A \<^verbatim>\<open>UUID\<close> column
  holds the identifier in the one spelling the store prints it in; two identifiers
  are the same value exactly when these spellings are equal.
\<close>

record project_row =
  p_id :: string
  p_user_id :: string
  p_system_prompt :: "string option"

record chat_row =
  c_id :: string
  c_project_id :: string

record message_row =
  m_chat_id :: string
  m_role :: string
  m_content :: string

type_synonym byte = "8 word"

text \<open>A \<^verbatim>\<open>File\<close> of a multipart form; \<^verbatim>\<open>file.size\<close> is the number of its bytes.\<close>

record js_file =
  file_name :: string
  file_type :: string
  file_bytes :: "byte list"

definition file_size :: "js_file \<Rightarrow> nat" where
  "file_size f = length (file_bytes f)"

record file_row =
  f_project_id :: string
  f_name :: string
  f_size :: nat
  f_type :: string
  f_storage_path :: string

text \<open>The database and the private bucket \<^verbatim>\<open>project-files\<close> (object name, object).\<close>

record store =
  projects :: "project_row list"
  chats :: "chat_row list"
  messages :: "message_row list"
  files :: "file_row list"
  bucket :: "(string \<times> js_file) list"

text \<open>\<^verbatim>\<open>role TEXT NOT NULL CHECK (role IN ('user', 'assistant'))\<close>\<close>

definition role_check :: "string \<Rightarrow> bool" where
  "role_check r = (r = ''user'' \<or> r = ''assistant'')"

text \<open>\<^verbatim>\<open>size INTEGER NOT NULL\<close>: a four-byte signed integer.\<close>

definition integer_max :: nat where
  "integer_max = 2147483647"

text \<open>
  An entry of a multipart form, as \<^verbatim>\<open>formData.get(name)\<close> returns it: a string or a
  \<^verbatim>\<open>File\<close> (\<^verbatim>\<open>null\<close>, for an absent field, is \<open>None\<close>).
\<close>

datatype form_entry = Text_entry string | File_entry js_file

fun truthy_entry :: "form_entry option \<Rightarrow> bool" where
  "truthy_entry None = False"
| "truthy_entry (Some (Text_entry s)) = (s \<noteq> [])"
| "truthy_entry (Some (File_entry f)) = True"

text \<open>Template-string rendering \<^verbatim>\<open>${v}\<close> of a form entry.\<close>

fun entry_text :: "form_entry \<Rightarrow> string" where
  "entry_text (Text_entry s) = s"
| "entry_text (File_entry f) = ''[object File]''"

subsection \<open>The environment of a handler\<close>

text \<open>The body of the call to \<^verbatim>\<open>/v1/chat/completions\<close>.\<close>

record completion_request =
  cr_model :: string
  cr_messages :: "json list"
  cr_temperature :: rat
  cr_max_tokens :: nat

text \<open>
  What is outside a handler: the configuration, the random source, the two third-party
  endpoints, and the faults (network, platform) that make a statement on the store fail
  whatever the store holds. \<open>client_error\<close> is the message \<^verbatim>\<open>createClient\<close> throws
  when it rejects the configured URL or key.

  Four functions stand for what the client library and the managed store do with a
  value on its way into a statement; they are parameters, and nothing is assumed of
  them:
  \<^item> \<open>uuid_of_filter v\<close>: the identifier that \<^verbatim>\<open>.eq('id', v)\<close> compares the column
    with, once the client has rendered \<open>v\<close> into the request and the store has read
    the text as a UUID; \<open>None\<close> when the store rejects it;
  \<^item> \<open>uuid_of_column v\<close>: the identifier the store reads from the JSON value \<open>v\<close>
    sent for a \<^verbatim>\<open>UUID\<close> column of an insert; \<open>None\<close> when it rejects it;
  \<^item> \<open>json_text v\<close>: the text the store writes into a \<^verbatim>\<open>TEXT\<close> column for a JSON
    value \<open>v\<close> that is not a string;
  \<^item> \<open>object_key path\<close>: the key under which the storage client and service file an
    object uploaded at \<open>path\<close>.
\<close>

record env =
  client_error :: "string option"
  openai_api_key :: "string option"
  random_uuid :: string
  project_fetch_fault :: bool
  message_insert_fault :: bool
  storage_fault :: bool
  file_insert_fault :: bool
  completion_api :: "string \<Rightarrow> completion_request \<Rightarrow> fetch_result"
  files_api :: "string \<Rightarrow> js_file \<Rightarrow> fetch_result"
  uuid_of_filter :: "jsval \<Rightarrow> string option"
  uuid_of_column :: "json \<Rightarrow> string option"
  json_text :: "json \<Rightarrow> string"
  object_key :: "string \<Rightarrow> string"

subsection \<open>Statements on the store, as the service credential runs them\<close>

text \<open>
  The relays create their client with \<^verbatim>\<open>SUPABASE_SERVICE_ROLE_KEY\<close>, so no row-level
  security policy is evaluated for them; the constraints of the tables are. Every
  function returns \<open>None\<close> when the statement reports an error.
\<close>

text \<open>\<^verbatim>\<open>from('projects').select('system_prompt').eq('id', v).single()\<close>: an error
  unless \<open>v\<close> is read as an identifier and exactly one row has it.\<close>

definition select_system_prompt :: "env \<Rightarrow> store \<Rightarrow> jsval \<Rightarrow> string option option" where
  "select_system_prompt e st v =
     (case filter (\<lambda>p. uuid_of_filter e v = Some (p_id p)) (projects st) of
        [p] \<Rightarrow> Some (p_system_prompt p)
      | _ \<Rightarrow> None)"

text \<open>What a \<^verbatim>\<open>TEXT\<close> column stores for a JSON value: a string as it is.\<close>

definition column_text :: "env \<Rightarrow> json \<Rightarrow> string" where
  "column_text e v = (case v of JStr s \<Rightarrow> s | _ \<Rightarrow> json_text e v)"

text \<open>
  The row that the payload \<^verbatim>\<open>{chat_id, role, content}\<close> of an insert into
  \<^verbatim>\<open>messages\<close> denotes: \<^verbatim>\<open>chat_id\<close> and \<^verbatim>\<open>content\<close> are \<^verbatim>\<open>NOT NULL\<close>, so a
  payload without them (or with \<^verbatim>\<open>null\<close>) is rejected, as is one whose
  \<^verbatim>\<open>chat_id\<close> is not read as an identifier.
\<close>

definition message_row_of :: "env \<Rightarrow> jsval \<Rightarrow> string \<Rightarrow> jsval \<Rightarrow> message_row option" where
  "message_row_of e chat role content =
     (case (chat, content) of
        (Some ch, Some c) \<Rightarrow>
          if ch = JNull \<or> c = JNull then None
          else (case uuid_of_column e ch of
                  None \<Rightarrow> None
                | Some cid \<Rightarrow>
                    Some \<lparr>m_chat_id = cid, m_role = role, m_content = column_text e c\<rparr>)
      | _ \<Rightarrow> None)"

text \<open>Adding a row to \<^verbatim>\<open>messages\<close>: the chat must exist (foreign key) and the role
  must pass the check.\<close>

definition add_message :: "store \<Rightarrow> message_row \<Rightarrow> store option" where
  "add_message st m =
     (if m_chat_id m \<in> c_id ` set (chats st) \<and> role_check (m_role m)
      then Some (st\<lparr>messages := messages st @ [m]\<rparr>)
      else None)"

text \<open>\<^verbatim>\<open>from('messages').insert({chat_id, role, content})\<close>\<close>

definition insert_message :: "env \<Rightarrow> store \<Rightarrow> jsval \<Rightarrow> string \<Rightarrow> jsval \<Rightarrow> store option" where
  "insert_message e st chat role content =
     (case message_row_of e chat role content of
        None \<Rightarrow> None
      | Some m \<Rightarrow> add_message st m)"

text \<open>\<^verbatim>\<open>storage.from('project-files').upload(path, file)\<close>: the object is filed under
  the key of the path; without the upsert option an existing object is not
  overwritten.\<close>

definition upload_object :: "env \<Rightarrow> store \<Rightarrow> string \<Rightarrow> js_file \<Rightarrow> store option" where
  "upload_object e st path f =
     (if object_key e path \<in> fst ` set (bucket st) then None
      else Some (st\<lparr>bucket := bucket st @ [(object_key e path, f)]\<rparr>))"

text \<open>\<^verbatim>\<open>from('files').insert({...}).select().single()\<close>: the \<^verbatim>\<open>project_id\<close> sent must
  be read as the identifier of an existing project (foreign key; a \<^verbatim>\<open>File\<close> sent
  for it is no identifier) and the size must fit the column; the inserted row is
  returned.\<close>

definition insert_file ::
  "env \<Rightarrow> store \<Rightarrow> form_entry \<Rightarrow> string \<Rightarrow> nat \<Rightarrow> string \<Rightarrow> string \<Rightarrow>
   (file_row \<times> store) option" where
  "insert_file e st project name sz type path =
     (case project of
        Text_entry s \<Rightarrow>
          (case uuid_of_column e (JStr s) of
             None \<Rightarrow> None
           | Some pid \<Rightarrow>
               if pid \<in> p_id ` set (projects st) \<and> sz \<le> integer_max
               then (let row = \<lparr>f_project_id = pid, f_name = name, f_size = sz,
                                 f_type = type, f_storage_path = path\<rparr>
                     in Some (row, st\<lparr>files := files st @ [row]\<rparr>))
               else None)
      | File_entry f \<Rightarrow> None)"

section \<open>Requests and responses\<close>

text \<open>
  A request: its method, the identity of the bearer token in its \<^verbatim>\<open>authorization\<close>
  header (what \<^verbatim>\<open>auth.uid()\<close> would be for it), and what \<^verbatim>\<open>req.json()\<close> and
  \<^verbatim>\<open>req.formData()\<close> make of its body.
\<close>

record request =
  req_method :: string
  req_auth_uid :: "string option"
  req_json :: "json parsed"
  req_form :: "(string \<times> form_entry) list parsed"

text \<open>
  The calls a handler makes to the store and to third parties, in the order made.
  \<open>Remove_object\<close> is the storage call \<^verbatim>\<open>remove([path])\<close>, which the client's
  \<^verbatim>\<open>deleteFile\<close> makes and no relay does.
\<close>

datatype effect =
    Select_project jsval
  | Post_completion string completion_request
  | Insert_message jsval string jsval
  | Upload_object string js_file
  | Insert_file form_entry string nat string string
  | Post_file string js_file
  | Remove_object string

text \<open>
  The responses: the preflight answer (status 200, no body), the two success bodies
  \<^verbatim>\<open>{message, usage}\<close> and \<^verbatim>\<open>{file, openaiFileId, message}\<close> (status 200), and
  the envelope \<^verbatim>\<open>{error}\<close> (status 500).
\<close>

datatype response =
    Preflight
  | Completion_ok jsval jsval
  | Upload_ok file_row jsval string
  | Error_envelope errtext

fun status :: "response \<Rightarrow> nat" where
  "status (Error_envelope e) = 500"
| "status r = 200"

section \<open>The completion relay (chat-completion)\<close>

definition default_system_prompt :: string where
  "default_system_prompt = ''You are a helpful AI assistant.''"

text \<open>\<^verbatim>\<open>{ role: 'system', content: project.system_prompt || '...' }\<close>\<close>

definition system_entry :: "string option \<Rightarrow> json" where
  "system_entry sp =
     JObj [(''role'', JStr ''system''),
           (''content'', JStr (case nonempty sp of
                                 None \<Rightarrow> default_system_prompt
                               | Some s \<Rightarrow> s))]"

text \<open>\<^verbatim>\<open>data.choices[0].message.content\<close>\<close>

definition assistant_content :: "json \<Rightarrow> engine_error + jsval" where
  "assistant_content data =
     (case get_prop (Some data) ''choices'' of
        Inl er \<Rightarrow> Inl er
      | Inr choices \<Rightarrow>
          (case index0 choices of
             Inl er \<Rightarrow> Inl er
           | Inr choice \<Rightarrow>
               (case get_prop choice ''message'' of
                  Inl er \<Rightarrow> Inl er
                | Inr msg \<Rightarrow> get_prop msg ''content'')))"

text \<open>
  The body of the \<^verbatim>\<open>try\<close> block: \<open>Inl\<close> is the message of the error thrown,
  \<open>Inr\<close> the pair \<^verbatim>\<open>(assistantMessage, data.usage)\<close>; with it the calls made and
  the store they leave.
\<close>

definition chat_completion_try ::
  "env \<Rightarrow> request \<Rightarrow> store \<Rightarrow> (errtext + jsval \<times> jsval) \<times> effect list \<times> store" where
  "chat_completion_try e req st =
     (case req_json req of
        Parse_error m \<Rightarrow> (Inl (Text m), [], st)
      | Parsed body \<Rightarrow>
          if body = JNull then (Inl (Engine Destructure_of_null), [], st)
          else
          (let messages = member body ''messages'';
               chatId = member body ''chatId'';
               projectId = member body ''projectId''
           in
           if \<not> truthy messages \<or> \<not> truthy chatId \<or> \<not> truthy projectId
           then (Inl (Text ''Missing required parameters: messages, chatId, and projectId''), [], st)
           else
           (case client_error e of
              Some m \<Rightarrow> (Inl (Text m), [], st)
            | None \<Rightarrow>
           (let fx1 = [Select_project projectId] in
            case (if project_fetch_fault e then None else select_system_prompt e st projectId) of
              None \<Rightarrow> (Inl (Text ''Failed to fetch project details''), fx1, st)
            | Some system_prompt \<Rightarrow>
           (case spread messages of
              None \<Rightarrow> (Inl (Engine Not_iterable), fx1, st)
            | Some history \<Rightarrow>
           (let openaiMessages = system_entry system_prompt # history in
            case nonempty (openai_api_key e) of
              None \<Rightarrow> (Inl (Text ''OpenAI API key not configured''), fx1, st)
            | Some openaiApiKey \<Rightarrow>
           (let body_sent = \<lparr>cr_model = ''gpt-4o-mini'', cr_messages = openaiMessages,
                              cr_temperature = 7 / 10, cr_max_tokens = 2000\<rparr>;
                fx2 = fx1 @ [Post_completion openaiApiKey body_sent]
            in
            case completion_api e openaiApiKey body_sent of
              Rejected m \<Rightarrow> (Inl (Text m), fx2, st)
            | Resp code errorText parsed_body \<Rightarrow>
                if \<not> response_ok code
                then (Inl (Text (''OpenAI API error: '' @ decimal code @ '' '' @ errorText)), fx2, st)
                else
           (case parsed_body of
              Parse_error m \<Rightarrow> (Inl (Text m), fx2, st)
            | Parsed data \<Rightarrow>
           (case assistant_content data of
              Inl er \<Rightarrow> (Inl (Engine er), fx2, st)
            | Inr assistantMessage \<Rightarrow>
           (let fx3 = fx2 @ [Insert_message chatId ''assistant'' assistantMessage] in
            case (if message_insert_fault e then None
                  else insert_message e st chatId ''assistant'' assistantMessage) of
              None \<Rightarrow> (Inl (Text ''Failed to save assistant message''), fx3, st)
            | Some st' \<Rightarrow> (Inr (assistantMessage, member data ''usage''), fx3, st')))))))))))"

text \<open>The handler: the preflight answer, else the \<^verbatim>\<open>try\<close> block and its \<^verbatim>\<open>catch\<close>.\<close>

definition chat_completion :: "env \<Rightarrow> request \<Rightarrow> store \<Rightarrow> response \<times> effect list \<times> store" where
  "chat_completion e req st =
     (if req_method req = ''OPTIONS'' then (Preflight, [], st)
      else (case chat_completion_try e req st of
              (Inl err, fx, st') \<Rightarrow> (Error_envelope err, fx, st')
            | (Inr (msg, usage), fx, st') \<Rightarrow> (Completion_ok msg usage, fx, st')))"

section \<open>The upload relay (upload-file)\<close>

text \<open>
  The storage part of the \<^verbatim>\<open>try\<close> block, from the derivation of the object name
  to the metadata insert, for the file and the two identifiers of the form. \<open>Inr\<close> is
  the pair \<^verbatim>\<open>(file, fileData)\<close>.
\<close>

definition store_and_record ::
  "env \<Rightarrow> store \<Rightarrow> js_file \<Rightarrow> form_entry \<Rightarrow> form_entry \<Rightarrow>
   (errtext + js_file \<times> file_row) \<times> effect list \<times> store" where
  "store_and_record e st f projectId userId =
     (let fileExt = pop (split_on CHR ''.'' (file_name f));
          fileName = random_uuid e @ ''.'' @
                     (case fileExt of None \<Rightarrow> ''undefined'' | Some x \<Rightarrow> x);
          filePath = entry_text userId @ ''/'' @ fileName;
          fx1 = [Upload_object filePath f]
      in
      case (if storage_fault e then None else upload_object e st filePath f) of
        None \<Rightarrow> (Inl (Text ''Failed to upload file to storage''), fx1, st)
      | Some st1 \<Rightarrow>
     (let fx2 = fx1 @ [Insert_file projectId (file_name f) (file_size f) (file_type f) filePath] in
      case (if file_insert_fault e then None
            else insert_file e st1 projectId (file_name f) (file_size f) (file_type f) filePath) of
        None \<Rightarrow> (Inl (Text ''Failed to save file metadata''), fx2, st1)
      | Some (fileData, st2) \<Rightarrow> (Inr (f, fileData), fx2, st2)))"

text \<open>
  The \<^verbatim>\<open>try\<close> block up to the metadata insert. \<^verbatim>\<open>file.name.split\<close> throws when
  the \<^verbatim>\<open>file\<close> field is a string, which has no \<^verbatim>\<open>name\<close>.
\<close>

definition upload_try ::
  "env \<Rightarrow> request \<Rightarrow> store \<Rightarrow> (errtext + js_file \<times> file_row) \<times> effect list \<times> store" where
  "upload_try e req st =
     (case req_form req of
        Parse_error m \<Rightarrow> (Inl (Text m), [], st)
      | Parsed formData \<Rightarrow>
          (let file = map_of formData ''file'';
               projectId = map_of formData ''projectId'';
               userId = map_of formData ''userId''
           in
           if \<not> truthy_entry file \<or> \<not> truthy_entry projectId \<or> \<not> truthy_entry userId
           then (Inl (Text ''Missing required parameters: file, projectId, and userId''), [], st)
           else
           (case client_error e of
              Some m \<Rightarrow> (Inl (Text m), [], st)
            | None \<Rightarrow>
           (case (file, projectId, userId) of
              (Some (File_entry f), Some pid, Some uid) \<Rightarrow> store_and_record e st f pid uid
            | _ \<Rightarrow> (Inl (Engine Property_of_nullish), [], st)))))"

text \<open>
  The mirroring block: \<^verbatim>\<open>openaiFileId\<close> and the calls made. Everything thrown inside
  is caught by the inner \<^verbatim>\<open>try\<close>, which leaves \<^verbatim>\<open>openaiFileId\<close> at \<^verbatim>\<open>null\<close>.
\<close>

definition mirror_limit :: nat where
  "mirror_limit = 20 * 1024 * 1024"

definition mirror :: "env \<Rightarrow> js_file \<Rightarrow> jsval \<times> effect list" where
  "mirror e f =
     (case nonempty (openai_api_key e) of
        None \<Rightarrow> (Some JNull, [])
      | Some openaiApiKey \<Rightarrow>
          if file_size f \<le> mirror_limit
          then ((case files_api e openaiApiKey f of
                   Rejected m \<Rightarrow> Some JNull
                 | Resp code txt parsed_body \<Rightarrow>
                     if response_ok code
                     then (case parsed_body of
                             Parse_error m \<Rightarrow> Some JNull
                           | Parsed openaiData \<Rightarrow>
                               (case get_prop (Some openaiData) ''id'' of
                                  Inl er \<Rightarrow> Some JNull
                                | Inr v \<Rightarrow> v))
                     else Some JNull),
                [Post_file openaiApiKey f])
          else (Some JNull, []))"

text \<open>
  The handler. Every value thrown in the model is an \<^verbatim>\<open>Error\<close>, so the \<^verbatim>\<open>catch\<close>
  always takes \<^verbatim>\<open>error.message\<close>.
\<close>

definition upload_file :: "env \<Rightarrow> request \<Rightarrow> store \<Rightarrow> response \<times> effect list \<times> store" where
  "upload_file e req st =
     (if req_method req = ''OPTIONS'' then (Preflight, [], st)
      else (case upload_try e req st of
              (Inl err, fx, st') \<Rightarrow> (Error_envelope err, fx, st')
            | (Inr (f, fileData), fx, st') \<Rightarrow>
                (case mirror e f of
                   (openaiFileId, fx') \<Rightarrow>
                     (Upload_ok fileData openaiFileId ''File uploaded successfully'',
                      fx @ fx', st'))))"

section \<open>Row-level security\<close>

text \<open>
  The policies of the migration for the four entity tables (those of \<^verbatim>\<open>profiles\<close> and
  of \<^verbatim>\<open>storage.objects\<close> are not modelled). Row-level security is enabled on every
  table, all policies are permissive, and a requester (a client holding a user token,
  not the service credential) may run a command on a row only if some policy for that
  table and command accepts the row. \<^verbatim>\<open>auth.uid()\<close> is \<open>None\<close> for a request without
  a user; a comparison with it then fails.
\<close>

datatype command = Select | Insert | Update | Delete

datatype relation = Projects | Chats | Messages | Files

datatype row =
    Project_row project_row
  | Chat_row chat_row
  | Message_row message_row
  | File_row file_row

record policy =
  pol_name :: string
  pol_table :: relation
  pol_command :: command
  pol_expr :: "store \<Rightarrow> string option \<Rightarrow> row \<Rightarrow> bool"

text \<open>\<^verbatim>\<open>auth.uid() = user_id\<close>\<close>

fun own_project :: "store \<Rightarrow> string option \<Rightarrow> row \<Rightarrow> bool" where
  "own_project st uid (Project_row p) = (uid = Some (p_user_id p))"
| "own_project st uid r = False"

text \<open>\<^verbatim>\<open>EXISTS (SELECT 1 FROM projects WHERE projects.id = chats.project_id
  AND projects.user_id = auth.uid())\<close>\<close>

fun chat_of_own_project :: "store \<Rightarrow> string option \<Rightarrow> row \<Rightarrow> bool" where
  "chat_of_own_project st uid (Chat_row c) =
     (\<exists>p \<in> set (projects st). p_id p = c_project_id c \<and> Some (p_user_id p) = uid)"
| "chat_of_own_project st uid r = False"

text \<open>\<^verbatim>\<open>EXISTS (SELECT 1 FROM chats JOIN projects ON projects.id = chats.project_id
  WHERE chats.id = messages.chat_id AND projects.user_id = auth.uid())\<close>\<close>

fun message_of_own_chat :: "store \<Rightarrow> string option \<Rightarrow> row \<Rightarrow> bool" where
  "message_of_own_chat st uid (Message_row m) =
     (\<exists>c \<in> set (chats st). \<exists>p \<in> set (projects st).
        p_id p = c_project_id c \<and> c_id c = m_chat_id m \<and> Some (p_user_id p) = uid)"
| "message_of_own_chat st uid r = False"

text \<open>\<^verbatim>\<open>EXISTS (SELECT 1 FROM projects WHERE projects.id = files.project_id
  AND projects.user_id = auth.uid())\<close>\<close>

fun file_of_own_project :: "store \<Rightarrow> string option \<Rightarrow> row \<Rightarrow> bool" where
  "file_of_own_project st uid (File_row f) =
     (\<exists>p \<in> set (projects st). p_id p = f_project_id f \<and> Some (p_user_id p) = uid)"
| "file_of_own_project st uid r = False"

definition policies :: "policy list" where
  "policies =
     [\<lparr>pol_name = ''Users can view own projects'', pol_table = Projects,
       pol_command = Select, pol_expr = own_project\<rparr>,
      \<lparr>pol_name = ''Users can create own projects'', pol_table = Projects,
       pol_command = Insert, pol_expr = own_project\<rparr>,
      \<lparr>pol_name = ''Users can update own projects'', pol_table = Projects,
       pol_command = Update, pol_expr = own_project\<rparr>,
      \<lparr>pol_name = ''Users can delete own projects'', pol_table = Projects,
       pol_command = Delete, pol_expr = own_project\<rparr>,
      \<lparr>pol_name = ''Users can view chats from own projects'', pol_table = Chats,
       pol_command = Select, pol_expr = chat_of_own_project\<rparr>,
      \<lparr>pol_name = ''Users can create chats in own projects'', pol_table = Chats,
       pol_command = Insert, pol_expr = chat_of_own_project\<rparr>,
      \<lparr>pol_name = ''Users can update chats from own projects'', pol_table = Chats,
       pol_command = Update, pol_expr = chat_of_own_project\<rparr>,
      \<lparr>pol_name = ''Users can delete chats from own projects'', pol_table = Chats,
       pol_command = Delete, pol_expr = chat_of_own_project\<rparr>,
      \<lparr>pol_name = ''Users can view messages from own chats'', pol_table = Messages,
       pol_command = Select, pol_expr = message_of_own_chat\<rparr>,
      \<lparr>pol_name = ''Users can create messages in own chats'', pol_table = Messages,
       pol_command = Insert, pol_expr = message_of_own_chat\<rparr>,
      \<lparr>pol_name = ''Users can view files from own projects'', pol_table = Files,
       pol_command = Select, pol_expr = file_of_own_project\<rparr>,
      \<lparr>pol_name = ''Users can create files in own projects'', pol_table = Files,
       pol_command = Insert, pol_expr = file_of_own_project\<rparr>,
      \<lparr>pol_name = ''Users can delete files from own projects'', pol_table = Files,
       pol_command = Delete, pol_expr = file_of_own_project\<rparr>]"

definition rls_permits :: "store \<Rightarrow> string option \<Rightarrow> command \<Rightarrow> relation \<Rightarrow> row \<Rightarrow> bool" where
  "rls_permits st uid cmd tbl r =
     (\<exists>pol \<in> set policies.
        pol_table pol = tbl \<and> pol_command pol = cmd \<and> pol_expr pol st uid r)"

subsection \<open>Statements of a requester\<close>

text \<open>\<^verbatim>\<open>from('messages').insert(...)\<close> by a requester: the new row must pass an insert
  policy, then the constraints of the table.\<close>

definition requester_insert_message ::
  "env \<Rightarrow> store \<Rightarrow> string option \<Rightarrow> jsval \<Rightarrow> string \<Rightarrow> jsval \<Rightarrow> store option" where
  "requester_insert_message e st uid chat role content =
     (case message_row_of e chat role content of
        None \<Rightarrow> None
      | Some m \<Rightarrow>
          if rls_permits st uid Insert Messages (Message_row m) then add_message st m
          else None)"

text \<open>\<^verbatim>\<open>UPDATE messages\<close> of one row by a requester: a row that no update policy accepts
  is not touched (the statement then reports no error and changes nothing).\<close>

definition requester_update_message :: "store \<Rightarrow> string option \<Rightarrow> message_row \<Rightarrow> message_row \<Rightarrow> store" where
  "requester_update_message st uid old new =
     (if rls_permits st uid Update Messages (Message_row old) \<and> role_check (m_role new)
      then st\<lparr>messages := map (\<lambda>m. if m = old then new else m) (messages st)\<rparr>
      else st)"

text \<open>\<^verbatim>\<open>DELETE FROM messages\<close> of one row by a requester.\<close>

definition requester_delete_message :: "store \<Rightarrow> string option \<Rightarrow> message_row \<Rightarrow> store" where
  "requester_delete_message st uid old =
     (if rls_permits st uid Delete Messages (Message_row old)
      then st\<lparr>messages := filter (\<lambda>m. m \<noteq> old) (messages st)\<rparr>
      else st)"

text \<open>
  The client's \<^verbatim>\<open>sendMessage\<close> saves the user's turn with the user's own token:
  \<^verbatim>\<open>from('messages').insert({chat_id: selectedChat.id, role: 'user', content})\<close>.
\<close>

definition send_message_save ::
  "env \<Rightarrow> store \<Rightarrow> string option \<Rightarrow> string \<Rightarrow> string \<Rightarrow> store option" where
  "send_message_save e st uid chat_id userMessage =
     requester_insert_message e st uid (Some (JStr chat_id)) ''user'' (Some (JStr userMessage))"

text \<open>
  The client's \<^verbatim>\<open>deleteProject\<close>: \<^verbatim>\<open>from('projects').delete().eq('id', projectId)\<close>
  with the user's token. The rows a delete policy accepts are removed, and
  \<^verbatim>\<open>ON DELETE CASCADE\<close> removes the chats and files of a removed project and the
  messages of a removed chat.
\<close>

definition delete_project :: "env \<Rightarrow> store \<Rightarrow> string option \<Rightarrow> string \<Rightarrow> store" where
  "delete_project e st uid projectId =
     (let removed = filter (\<lambda>p. uuid_of_filter e (Some (JStr projectId)) = Some (p_id p) \<and>
                                  rls_permits st uid Delete Projects (Project_row p)) (projects st);
          removed_chats = filter (\<lambda>c. c_project_id c \<in> p_id ` set removed) (chats st)
      in st\<lparr>projects := filter (\<lambda>p. p \<notin> set removed) (projects st),
            chats := filter (\<lambda>c. c \<notin> set removed_chats) (chats st),
            messages := filter (\<lambda>m. m_chat_id m \<notin> c_id ` set removed_chats) (messages st),
            files := filter (\<lambda>f. f_project_id f \<notin> p_id ` set removed) (files st)\<rparr>)"

text \<open>Every stored message carries one of the two roles.\<close>

definition roles_ok :: "store \<Rightarrow> bool" where
  "roles_ok st = list_all (\<lambda>m. role_check (m_role m)) (messages st)"

section \<open>Observations on a run\<close>

text \<open>A run of a handler gives the response, the calls made and the store left.\<close>

definition reply :: "'a \<times> effect list \<times> store \<Rightarrow> 'a" where
  "reply run = fst run"

definition calls :: "'a \<times> effect list \<times> store \<Rightarrow> effect list" where
  "calls run = fst (snd run)"

definition store_after :: "'a \<times> effect list \<times> store \<Rightarrow> store" where
  "store_after run = snd (snd run)"

fun is_post_file :: "effect \<Rightarrow> bool" where
  "is_post_file (Post_file k f) = True"
| "is_post_file x = False"

fun is_insert_message :: "effect \<Rightarrow> bool" where
  "is_insert_message (Insert_message c r x) = True"
| "is_insert_message x = False"

fun is_remove_object :: "effect \<Rightarrow> bool" where
  "is_remove_object (Remove_object p) = True"
| "is_remove_object x = False"


text \<open>
  The store with other owners and other parents: every project gets the owner
  \<open>owner_of\<close> names, every chat the project \<open>project_of\<close> names.
\<close>

definition reassign :: "(project_row \<Rightarrow> string) \<Rightarrow> (chat_row \<Rightarrow> string) \<Rightarrow> store \<Rightarrow> store" where
  "reassign owner_of project_of st =
     st\<lparr>projects := map (\<lambda>p. p\<lparr>p_user_id := owner_of p\<rparr>) (projects st),
        chats := map (\<lambda>c. c\<lparr>c_project_id := project_of c\<rparr>) (chats st)\<rparr>"

text \<open>The fields a request supplies: of its JSON body, of its form.\<close>

definition supplied :: "request \<Rightarrow> string \<Rightarrow> jsval" where
  "supplied req k = (case req_json req of Parse_error m \<Rightarrow> None | Parsed body \<Rightarrow> member body k)"

definition form_field :: "request \<Rightarrow> string \<Rightarrow> form_entry option" where
  "form_field req k = (case req_form req of Parse_error m \<Rightarrow> None | Parsed fd \<Rightarrow> map_of fd k)"

definition completion_fields_missing :: "request \<Rightarrow> bool" where
  "completion_fields_missing req =
     (\<not> truthy (supplied req ''messages'') \<or> \<not> truthy (supplied req ''chatId'') \<or>
      \<not> truthy (supplied req ''projectId''))"

definition upload_fields_missing :: "request \<Rightarrow> bool" where
  "upload_fields_missing req =
     (\<not> truthy_entry (form_field req ''file'') \<or> \<not> truthy_entry (form_field req ''projectId'') \<or>
      \<not> truthy_entry (form_field req ''userId''))"

text \<open>The message arrays sent to the completion API.\<close>

fun sent_messages :: "effect list \<Rightarrow> json list list" where
  "sent_messages [] = []"
| "sent_messages (Post_completion k cr # fx) = cr_messages cr # sent_messages fx"
| "sent_messages (x # fx) = sent_messages fx"

text \<open>A mirror call that failed: the fetch was rejected, or answered outside 200..299.\<close>

fun mirror_failed :: "fetch_result \<Rightarrow> bool" where
  "mirror_failed (Rejected m) = True"
| "mirror_failed (Resp code txt parsed_body) = (\<not> response_ok code)"

section \<open>Example data\<close>

text \<open>
  Three projects of three owners (one prompt set, one empty, one null), one chat in
  each of the first two, and an environment in which every call succeeds, whose store
  reads a JSON string as the identifier it spells and whose storage client cleans the
  path. The examples store strings only, so \<open>json_text\<close> is never consulted.
\<close>

definition spelled_id :: "json \<Rightarrow> string option" where
  "spelled_id v = (case v of JStr s \<Rightarrow> Some s | _ \<Rightarrow> None)"

definition demo_store :: store where
  "demo_store =
     \<lparr>projects =
        [\<lparr>p_id = ''p1'', p_user_id = ''alice'', p_system_prompt = Some ''You are terse.''\<rparr>,
         \<lparr>p_id = ''p2'', p_user_id = ''bob'', p_system_prompt = Some []\<rparr>,
         \<lparr>p_id = ''p3'', p_user_id = ''carol'', p_system_prompt = None\<rparr>],
      chats =
        [\<lparr>c_id = ''c1'', c_project_id = ''p1''\<rparr>,
         \<lparr>c_id = ''c2'', c_project_id = ''p2''\<rparr>],
      messages = [], files = [], bucket = []\<rparr>"

definition hello_reply :: json where
  "hello_reply =
     JObj [(''choices'',
            JArr [JObj [(''message'',
                         JObj [(''role'', JStr ''assistant''), (''content'', JStr ''Hello.'')])]]),
           (''usage'', JObj [(''total_tokens'', JNum 9)])]"

definition demo_env :: env where
  "demo_env =
     \<lparr>client_error = None, openai_api_key = Some ''sk-test'', random_uuid = ''0b1e'',
      project_fetch_fault = False, message_insert_fault = False,
      storage_fault = False, file_insert_fault = False,
      completion_api = (\<lambda>k r. Resp 200 ''ok'' (Parsed hello_reply)),
      files_api = (\<lambda>k f. Resp 200 ''ok'' (Parsed (JObj [(''id'', JStr ''file-1'')]))),
      uuid_of_filter = (\<lambda>v. case v of None \<Rightarrow> None | Some j \<Rightarrow> spelled_id j),
      uuid_of_column = spelled_id,
      json_text = (\<lambda>v. []),
      object_key = clean_path\<rparr>"

definition hi_message :: json where
  "hi_message = JObj [(''role'', JStr ''user''), (''content'', JStr ''hi'')]"

text \<open>A completion request of \<open>uid\<close> for a project and a chat, with the one-turn history.\<close>

definition hi_request :: "string \<Rightarrow> string \<Rightarrow> string \<Rightarrow> request" where
  "hi_request uid projectId chatId =
     \<lparr>req_method = ''POST'', req_auth_uid = Some uid,
      req_json = Parsed (JObj [(''messages'', JArr [hi_message]),
                               (''chatId'', JStr chatId),
                               (''projectId'', JStr projectId)]),
      req_form = Parse_error ''not a form''\<rparr>"

text \<open>A text file of 5 KB, and the upload request for it with the given identifiers.\<close>

definition notes_file :: js_file where
  "notes_file = \<lparr>file_name = ''notes.txt'', file_type = ''text/plain'',
                 file_bytes = replicate 5120 0\<rparr>"

definition notes_request :: "string \<Rightarrow> string \<Rightarrow> request" where
  "notes_request userId projectId =
     \<lparr>req_method = ''POST'', req_auth_uid = Some ''alice'',
      req_json = Parse_error ''not JSON'',
      req_form = Parsed [(''file'', File_entry notes_file),
                         (''projectId'', Text_entry projectId),
                         (''userId'', Text_entry userId)]\<rparr>"

text \<open>A POST without a body: neither parser accepts it.\<close>

definition bodyless_request :: request where
  "bodyless_request =
     \<lparr>req_method = ''POST'', req_auth_uid = Some ''alice'',
      req_json = Parse_error ''Unexpected end of JSON input'',
      req_form = Parse_error ''Missing content type''\<rparr>"

text \<open>A POST whose JSON body is \<^verbatim>\<open>null\<close>.\<close>

definition null_body_request :: request where
  "null_body_request =
     \<lparr>req_method = ''POST'', req_auth_uid = Some ''alice'',
      req_json = Parsed JNull, req_form = Parse_error ''Missing content type''\<rparr>"

text \<open>Requests that supply no field at all, with the given method.\<close>

definition empty_request :: "string \<Rightarrow> request" where
  "empty_request method =
     \<lparr>req_method = method, req_auth_uid = None,
      req_json = Parsed (JObj []), req_form = Parsed []\<rparr>"

text \<open>An environment whose completion API answers 429.\<close>

definition throttled_env :: env where
  "throttled_env =
     demo_env\<lparr>completion_api := (\<lambda>k r. Resp 429 ''Rate limit reached'' (Parse_error ''not JSON''))\<rparr>"

text \<open>The body the completion API receives for \<open>hi_request\<close> on project \<open>p1\<close>.\<close>

definition terse_call :: completion_request where
  "terse_call =
     \<lparr>cr_model = ''gpt-4o-mini'',
      cr_messages = [JObj [(''role'', JStr ''system''), (''content'', JStr ''You are terse.'')],
                     JObj [(''role'', JStr ''user''), (''content'', JStr ''hi'')]],
      cr_temperature = 7 / 10, cr_max_tokens = 2000\<rparr>"

text \<open>The body it receives on a project whose prompt is empty or null.\<close>

definition default_call :: completion_request where
  "default_call =
     \<lparr>cr_model = ''gpt-4o-mini'',
      cr_messages = [JObj [(''role'', JStr ''system''),
                           (''content'', JStr ''You are a helpful AI assistant.'')],
                     JObj [(''role'', JStr ''user''), (''content'', JStr ''hi'')]],
      cr_temperature = 7 / 10, cr_max_tokens = 2000\<rparr>"

text \<open>Environments without a mirror key, with a mirror that cannot be reached, and with
  a files table that rejects every insert.\<close>

definition no_key_env :: env where
  "no_key_env = demo_env\<lparr>openai_api_key := None\<rparr>"

definition mirror_down_env :: env where
  "mirror_down_env = demo_env\<lparr>files_api := (\<lambda>k f. Rejected ''connection refused'')\<rparr>"

definition metadata_fault_env :: env where
  "metadata_fault_env = demo_env\<lparr>file_insert_fault := True\<rparr>"

text \<open>The row and the store that the upload of \<open>notes_file\<close> by \<open>alice\<close> to \<open>p1\<close> leaves.\<close>

definition notes_row :: file_row where
  "notes_row = \<lparr>f_project_id = ''p1'', f_name = ''notes.txt'', f_size = 5120,
                f_type = ''text/plain'', f_storage_path = ''alice/0b1e.txt''\<rparr>"

definition uploaded_store :: store where
  "uploaded_store = demo_store\<lparr>bucket := [(''alice/0b1e.txt'', notes_file)]\<rparr>"

text \<open>The store after one exchange in chat \<open>c1\<close>.\<close>

definition chatted_store :: store where
  "chatted_store =
     demo_store\<lparr>messages :=
       [\<lparr>m_chat_id = ''c1'', m_role = ''user'', m_content = ''hi''\<rparr>,
        \<lparr>m_chat_id = ''c1'', m_role = ''assistant'', m_content = ''Hello.''\<rparr>]\<rparr>"

section \<open>Facts about the handlers\<close>

lemmas relay_defs =
  chat_completion_def chat_completion_try_def upload_file_def upload_try_def
  store_and_record_def mirror_def
  select_system_prompt_def insert_message_def message_row_of_def add_message_def
  column_text_def upload_object_def insert_file_def
  clean_path_def trim_slashes_def
  assistant_content_def system_entry_def default_system_prompt_def
  response_ok_def role_check_def integer_max_def mirror_limit_def file_size_def pop_def
  supplied_def form_field_def reply_def calls_def store_after_def

lemmas demo_defs =
  demo_store_def demo_env_def hello_reply_def hi_message_def hi_request_def
  notes_file_def notes_request_def empty_request_def throttled_env_def
  terse_call_def default_call_def no_key_env_def mirror_down_env_def metadata_fault_env_def
  notes_row_def uploaded_store_def chatted_store_def spelled_id_def bodyless_request_def null_body_request_def

text \<open>A run of the completion relay is the preflight answer or a run of its \<open>try\<close> block.\<close>

lemma chat_completion_cases:
  "(req_method req = ''OPTIONS'' \<and> chat_completion e req st = (Preflight, [], st)) \<or>
   (req_method req \<noteq> ''OPTIONS'' \<and>
    calls (chat_completion e req st) = calls (chat_completion_try e req st) \<and>
    store_after (chat_completion e req st) = store_after (chat_completion_try e req st) \<and>
    reply (chat_completion e req st) =
      (case reply (chat_completion_try e req st) of
         Inl err \<Rightarrow> Error_envelope err
       | Inr (m, u) \<Rightarrow> Completion_ok m u))"
  by (auto simp: chat_completion_def reply_def calls_def store_after_def split: sum.splits prod.splits)

lemma chat_completion_calls:
  "x \<in> set (calls (chat_completion e req st)) \<Longrightarrow>
   req_method req \<noteq> ''OPTIONS'' \<and> x \<in> set (calls (chat_completion_try e req st))"
  using chat_completion_cases [of req e st] by (auto simp: calls_def)

text \<open>What has happened when the completion API is called.\<close>

lemma post_completion_sent:
  assumes "Post_completion k cr \<in> set (calls (chat_completion_try e req st))"
  shows "\<exists>sp history.
           select_system_prompt e st (supplied req ''projectId'') = Some sp \<and>
           spread (supplied req ''messages'') = Some history \<and>
           nonempty (openai_api_key e) = Some k \<and>
           cr = \<lparr>cr_model = ''gpt-4o-mini'', cr_messages = system_entry sp # history,
                  cr_temperature = 7 / 10, cr_max_tokens = 2000\<rparr>"
  using assms
  by (auto simp: chat_completion_try_def supplied_def calls_def Let_def
           split: parsed.splits option.splits if_splits fetch_result.splits sum.splits)

text \<open>What the \<open>try\<close> block does with the answer of the completion API.\<close>

lemma post_completion_outcome:
  assumes "Post_completion k cr \<in> set (calls (chat_completion_try e req st))"
    and "completion_api e k cr = Resp code body parsed_body"
    and "\<not> response_ok code"
  shows "chat_completion_try e req st =
           (Inl (Text (''OpenAI API error: '' @ decimal code @ '' '' @ body)),
            [Select_project (supplied req ''projectId''), Post_completion k cr], st)"
  using assms
  by (auto simp: chat_completion_try_def supplied_def calls_def Let_def
           split: parsed.splits option.splits if_splits fetch_result.splits sum.splits)

lemma select_system_prompt_Some:
  "select_system_prompt e st v = Some sp \<Longrightarrow>
   \<exists>p. filter (\<lambda>p. uuid_of_filter e v = Some (p_id p)) (projects st) = [p] \<and>
       p_system_prompt p = sp"
  by (auto simp: select_system_prompt_def split: list.splits)

lemma system_entry_eq:
  "system_entry sp =
     JObj [(''role'', JStr ''system''),
           (''content'', JStr (case sp of
                                 None \<Rightarrow> ''You are a helpful AI assistant.''
                               | Some s \<Rightarrow> if s = [] then ''You are a helpful AI assistant.''
                                          else s))]"
  by (cases sp) (auto simp: system_entry_def default_system_prompt_def)

text \<open>A successful \<open>try\<close> block has inserted the reply, last of all.\<close>

lemma try_success:
  assumes "chat_completion_try e req st = (Inr (text, usage), fx, st')"
  shows "\<exists>ch cid c fx0.
           supplied req ''chatId'' = Some ch \<and> uuid_of_column e ch = Some cid \<and>
           text = Some c \<and>
           st' = st\<lparr>messages := messages st @
                    [\<lparr>m_chat_id = cid, m_role = ''assistant'', m_content = column_text e c\<rparr>]\<rparr> \<and>
           fx = fx0 @ [Insert_message (Some ch) ''assistant'' (Some c)] \<and>
           filter is_insert_message fx0 = []"
  using assms
  by (auto simp: chat_completion_try_def supplied_def insert_message_def message_row_of_def
                 add_message_def Let_def
           split: parsed.splits option.splits if_splits fetch_result.splits sum.splits)

lemma try_insert_failed:
  assumes "Insert_message chat role content \<in> set (calls (chat_completion_try e req st))"
    and "message_insert_fault e \<or> insert_message e st chat role content = None"
  shows "reply (chat_completion_try e req st) = Inl (Text ''Failed to save assistant message'') \<and>
         store_after (chat_completion_try e req st) = st"
  using assms
  by (auto simp: chat_completion_try_def supplied_def calls_def reply_def store_after_def Let_def
           split: parsed.splits option.splits if_splits fetch_result.splits sum.splits)

lemma post_completion_project:
  assumes "Post_completion k cr \<in> set (calls (chat_completion e req st))"
  shows "\<exists>p history.
           filter (\<lambda>p. uuid_of_filter e (supplied req ''projectId'') = Some (p_id p))
             (projects st) = [p] \<and>
           spread (supplied req ''messages'') = Some history \<and>
           cr_messages cr = system_entry (p_system_prompt p) # history"
proof -
  from chat_completion_calls [OF assms]
  have "Post_completion k cr \<in> set (calls (chat_completion_try e req st))" by simp
  from post_completion_sent [OF this]
  obtain sp history where
    sel: "select_system_prompt e st (supplied req ''projectId'') = Some sp"
    and spr: "spread (supplied req ''messages'') = Some history"
    and cr: "cr_messages cr = system_entry sp # history"
    by auto
  from select_system_prompt_Some [OF sel]
  obtain p where
    "filter (\<lambda>p. uuid_of_filter e (supplied req ''projectId'') = Some (p_id p))
       (projects st) = [p]"
    "p_system_prompt p = sp" by auto
  with spr cr show ?thesis by auto
qed

section \<open>The claims about the completion relay\<close>

text \<open>
  C1 (as amended). Whenever the completion relay calls the completion API, the message
  array it sends is the caller-supplied history (the elements that \<^verbatim>\<open>...messages\<close>
  yields) with exactly one entry of role \<^verbatim>\<open>system\<close> prepended at position 0. That
  entry holds the system prompt of the fetched project (the one project whose id the
  store reads from the supplied \<^verbatim>\<open>projectId\<close>) when that prompt is a non-empty
  string, and the default text \<^verbatim>\<open>You are a helpful AI assistant.\<close> when it is null
  or empty.
\<close>

theorem upstream_messages_prepend_system_entry:
  assumes "Post_completion k cr \<in> set (calls (chat_completion e req st))"
  shows "\<exists>p history.
           filter (\<lambda>p. uuid_of_filter e (supplied req ''projectId'') = Some (p_id p))
             (projects st) = [p] \<and>
           spread (supplied req ''messages'') = Some history \<and>
           cr_messages cr =
             JObj [(''role'', JStr ''system''),
                   (''content'', JStr (case p_system_prompt p of
                                         None \<Rightarrow> ''You are a helpful AI assistant.''
                                       | Some s \<Rightarrow> if s = [] then ''You are a helpful AI assistant.''
                                                  else s))] # history"
  using post_completion_project [OF assms] by (simp add: system_entry_eq)

text \<open>
  The scenario of the specification: for the history \<^verbatim>\<open>[{role:"user",content:"hi"}]\<close>
  and a project whose prompt is \<^verbatim>\<open>You are terse.\<close> the completion API receives
  exactly the two-element array.
\<close>

theorem upstream_messages_prepend_system_entry_witness:
  "Post_completion ''sk-test'' terse_call
     \<in> set (calls (chat_completion demo_env (hi_request ''alice'' ''p1'' ''c1'') demo_store)) \<and>
   (\<exists>p history.
      filter (\<lambda>p. uuid_of_filter demo_env (supplied (hi_request ''alice'' ''p1'' ''c1'') ''projectId'') =
                   Some (p_id p))
        (projects demo_store) = [p] \<and>
      spread (supplied (hi_request ''alice'' ''p1'' ''c1'') ''messages'') = Some history \<and>
      cr_messages terse_call =
        JObj [(''role'', JStr ''system''),
              (''content'', JStr (case p_system_prompt p of
                                    None \<Rightarrow> ''You are a helpful AI assistant.''
                                  | Some s \<Rightarrow> if s = [] then ''You are a helpful AI assistant.''
                                             else s))] # history) \<and>
   sent_messages (calls (chat_completion demo_env (hi_request ''alice'' ''p1'' ''c1'') demo_store)) =
     [[JObj [(''role'', JStr ''system''), (''content'', JStr ''You are terse.'')],
       JObj [(''role'', JStr ''user''), (''content'', JStr ''hi'')]]]"
proof -
  have sent: "Post_completion ''sk-test'' terse_call
     \<in> set (calls (chat_completion demo_env (hi_request ''alice'' ''p1'' ''c1'') demo_store))"
    by (simp add: relay_defs demo_defs)
  have arr: "sent_messages (calls (chat_completion demo_env (hi_request ''alice'' ''p1'' ''c1'') demo_store)) =
     [[JObj [(''role'', JStr ''system''), (''content'', JStr ''You are terse.'')],
       JObj [(''role'', JStr ''user''), (''content'', JStr ''hi'')]]]"
    by (simp add: relay_defs demo_defs)
  from upstream_messages_prepend_system_entry [OF sent] sent arr show ?thesis by blast
qed

text \<open>
  C1 as stated fails: project \<open>p2\<close> stores the empty prompt, and the entry sent for it
  holds the default text, not the stored prompt.
\<close>

theorem stored_empty_prompt_not_sent:
  "select_system_prompt demo_env demo_store
     (supplied (hi_request ''bob'' ''p2'' ''c2'') ''projectId'') = Some (Some '''') \<and>
   sent_messages (calls (chat_completion demo_env (hi_request ''bob'' ''p2'' ''c2'') demo_store)) =
     [[JObj [(''role'', JStr ''system''), (''content'', JStr ''You are a helpful AI assistant.'')],
       JObj [(''role'', JStr ''user''), (''content'', JStr ''hi'')]]] \<and>
   sent_messages (calls (chat_completion demo_env (hi_request ''bob'' ''p2'' ''c2'') demo_store)) \<noteq>
     [[JObj [(''role'', JStr ''system''), (''content'', JStr '''')],
       JObj [(''role'', JStr ''user''), (''content'', JStr ''hi'')]]]"
  by (simp add: relay_defs demo_defs)

text \<open>
  C10. If the stored system prompt of the fetched project (the project whose id the
  store reads from the supplied \<^verbatim>\<open>projectId\<close>) is null or the empty string, the
  system entry sent to the completion API holds the literal default
  \<^verbatim>\<open>You are a helpful AI assistant.\<close>, followed by the supplied history; the empty
  prompt is not forwarded.
\<close>

theorem default_prompt_substituted:
  assumes "Post_completion k cr \<in> set (calls (chat_completion e req st))"
    and "p \<in> set (projects st)"
    and "uuid_of_filter e (supplied req ''projectId'') = Some (p_id p)"
    and "p_system_prompt p = None \<or> p_system_prompt p = Some []"
  shows "\<exists>history.
           spread (supplied req ''messages'') = Some history \<and>
           cr_messages cr =
             JObj [(''role'', JStr ''system''),
                   (''content'', JStr ''You are a helpful AI assistant.'')] # history"
proof -
  from post_completion_project [OF assms(1)]
  obtain q history where
    q: "filter (\<lambda>p. uuid_of_filter e (supplied req ''projectId'') = Some (p_id p))
          (projects st) = [q]"
    and spr: "spread (supplied req ''messages'') = Some history"
    and cr: "cr_messages cr = system_entry (p_system_prompt q) # history"
    by auto
  from assms(2,3)
  have "p \<in> set (filter (\<lambda>p. uuid_of_filter e (supplied req ''projectId'') = Some (p_id p))
                    (projects st))"
    by simp
  with q have "p = q" by simp
  with assms(4) cr have "cr_messages cr =
             JObj [(''role'', JStr ''system''),
                   (''content'', JStr ''You are a helpful AI assistant.'')] # history"
    by (auto simp: system_entry_eq)
  with spr show ?thesis by simp
qed

theorem default_prompt_substituted_witness:
  "Post_completion ''sk-test'' default_call
     \<in> set (calls (chat_completion demo_env (hi_request ''carol'' ''p3'' ''c1'') demo_store)) \<and>
   \<lparr>p_id = ''p3'', p_user_id = ''carol'', p_system_prompt = None\<rparr> \<in> set (projects demo_store) \<and>
   uuid_of_filter demo_env (supplied (hi_request ''carol'' ''p3'' ''c1'') ''projectId'') =
     Some (p_id \<lparr>p_id = ''p3'', p_user_id = ''carol'', p_system_prompt = None\<rparr>) \<and>
   (\<exists>history.
      spread (supplied (hi_request ''carol'' ''p3'' ''c1'') ''messages'') = Some history \<and>
      cr_messages default_call =
        JObj [(''role'', JStr ''system''),
              (''content'', JStr ''You are a helpful AI assistant.'')] # history)"
proof -
  have sent: "Post_completion ''sk-test'' default_call
     \<in> set (calls (chat_completion demo_env (hi_request ''carol'' ''p3'' ''c1'') demo_store))"
    by (simp add: relay_defs demo_defs)
  have row: "\<lparr>p_id = ''p3'', p_user_id = ''carol'', p_system_prompt = None\<rparr> \<in> set (projects demo_store)"
    by (simp add: demo_defs)
  have pid: "uuid_of_filter demo_env (supplied (hi_request ''carol'' ''p3'' ''c1'') ''projectId'') =
     Some (p_id \<lparr>p_id = ''p3'', p_user_id = ''carol'', p_system_prompt = None\<rparr>)"
    by (simp add: relay_defs demo_defs)
  from default_prompt_substituted [OF sent row pid] sent row pid show ?thesis by simp
qed

text \<open>
  C3. Whenever the completion API answers the relay's call with a status outside
  200..299, the relay responds with status 500 and the body
  \<^verbatim>\<open>{error: "OpenAI API error: <status> <body>"}\<close>, carrying the upstream status and
  body text verbatim; it attempts no insert into \<^verbatim>\<open>messages\<close> and leaves the store
  as it was.
\<close>

theorem upstream_error_relayed:
  assumes "Post_completion k cr \<in> set (calls (chat_completion e req st))"
    and "completion_api e k cr = Resp code body parsed_body"
    and "\<not> response_ok code"
  shows "reply (chat_completion e req st) =
           Error_envelope (Text (''OpenAI API error: '' @ decimal code @ '' '' @ body)) \<and>
         status (reply (chat_completion e req st)) = 500 \<and>
         filter is_insert_message (calls (chat_completion e req st)) = [] \<and>
         store_after (chat_completion e req st) = st"
proof -
  from chat_completion_calls [OF assms(1)]
  have m: "req_method req \<noteq> ''OPTIONS''"
    and "Post_completion k cr \<in> set (calls (chat_completion_try e req st))" by simp_all
  from post_completion_outcome [OF this(2) assms(2,3)] m
  show ?thesis
    using chat_completion_cases [of req e st]
    by (simp add: reply_def calls_def store_after_def)
qed

theorem upstream_error_relayed_witness:
  "Post_completion ''sk-test'' terse_call
     \<in> set (calls (chat_completion throttled_env (hi_request ''alice'' ''p1'' ''c1'') demo_store)) \<and>
   completion_api throttled_env ''sk-test'' terse_call =
     Resp 429 ''Rate limit reached'' (Parse_error ''not JSON'') \<and>
   \<not> response_ok 429 \<and>
   reply (chat_completion throttled_env (hi_request ''alice'' ''p1'' ''c1'') demo_store) =
     Error_envelope (Text ''OpenAI API error: 429 Rate limit reached'') \<and>
   status (reply (chat_completion throttled_env (hi_request ''alice'' ''p1'' ''c1'') demo_store)) = 500 \<and>
   filter is_insert_message
     (calls (chat_completion throttled_env (hi_request ''alice'' ''p1'' ''c1'') demo_store)) = [] \<and>
   store_after (chat_completion throttled_env (hi_request ''alice'' ''p1'' ''c1'') demo_store) = demo_store"
proof -
  have sent: "Post_completion ''sk-test'' terse_call
     \<in> set (calls (chat_completion throttled_env (hi_request ''alice'' ''p1'' ''c1'') demo_store))"
    by (simp add: relay_defs demo_defs)
  have ans: "completion_api throttled_env ''sk-test'' terse_call =
     Resp 429 ''Rate limit reached'' (Parse_error ''not JSON'')"
    by (simp add: demo_defs)
  have bad: "\<not> response_ok 429" by (simp add: response_ok_def)
  have dec: "decimal 429 = ''429''" by (simp add: decimal.simps)
  from upstream_error_relayed [OF sent ans bad] sent ans bad dec show ?thesis by simp
qed

text \<open>
  C2. If the completion relay returns the success response \<^verbatim>\<open>{message, usage}\<close>,
  then exactly one insert into \<^verbatim>\<open>messages\<close> was made, it was the last call before
  the response, and it added exactly one row: for the supplied \<^verbatim>\<open>chatId\<close> (the
  identifier the store reads from it), with role \<^verbatim>\<open>assistant\<close> and with the returned
  message as content (a string is stored as it is). If the insert the relay attempts
  fails (a fault, or a constraint of the table), the response is the error envelope
  \<^verbatim>\<open>Failed to save assistant message\<close> with status 500, which does not carry the
  generated text, and the store is unchanged.
\<close>

theorem assistant_reply_persisted:
  "(reply (chat_completion e req st) = Completion_ok msg usage \<longrightarrow>
      (\<exists>ch cid c.
         supplied req ''chatId'' = Some ch \<and> uuid_of_column e ch = Some cid \<and>
         msg = Some c \<and>
         messages (store_after (chat_completion e req st)) =
           messages st @
           [\<lparr>m_chat_id = cid, m_role = ''assistant'', m_content = column_text e c\<rparr>] \<and>
         filter is_insert_message (calls (chat_completion e req st)) =
           [Insert_message (Some ch) ''assistant'' (Some c)] \<and>
         last (calls (chat_completion e req st)) =
           Insert_message (Some ch) ''assistant'' (Some c))) \<and>
   column_text e (JStr s) = s \<and>
   (Insert_message chat role content \<in> set (calls (chat_completion e req st)) \<and>
    (message_insert_fault e \<or> insert_message e st chat role content = None) \<longrightarrow>
      reply (chat_completion e req st) =
        Error_envelope (Text ''Failed to save assistant message'') \<and>
      status (reply (chat_completion e req st)) = 500 \<and>
      store_after (chat_completion e req st) = st)"
proof (intro conjI impI)
  assume ok: "reply (chat_completion e req st) = Completion_ok msg usage"
  with chat_completion_cases [of req e st]
  have m: "req_method req \<noteq> ''OPTIONS''" by (auto simp: reply_def)
  with ok chat_completion_cases [of req e st]
  have "reply (chat_completion_try e req st) = Inr (msg, usage)"
    by (auto split: sum.splits)
  then have "chat_completion_try e req st =
    (Inr (msg, usage), calls (chat_completion_try e req st), store_after (chat_completion_try e req st))"
    by (simp add: reply_def calls_def store_after_def prod_eq_iff)
  from try_success [OF this] m chat_completion_cases [of req e st]
  show "\<exists>ch cid c.
         supplied req ''chatId'' = Some ch \<and> uuid_of_column e ch = Some cid \<and>
         msg = Some c \<and>
         messages (store_after (chat_completion e req st)) =
           messages st @
           [\<lparr>m_chat_id = cid, m_role = ''assistant'', m_content = column_text e c\<rparr>] \<and>
         filter is_insert_message (calls (chat_completion e req st)) =
           [Insert_message (Some ch) ''assistant'' (Some c)] \<and>
         last (calls (chat_completion e req st)) =
           Insert_message (Some ch) ''assistant'' (Some c)"
    by auto
next
  show "column_text e (JStr s) = s" by (simp add: column_text_def)
next
  assume a: "Insert_message chat role content \<in> set (calls (chat_completion e req st)) \<and>
    (message_insert_fault e \<or> insert_message e st chat role content = None)"
  with chat_completion_calls [of "Insert_message chat role content" e req st]
  have m: "req_method req \<noteq> ''OPTIONS''"
    and "Insert_message chat role content \<in> set (calls (chat_completion_try e req st))" by simp_all
  from try_insert_failed [OF this(2)] a m chat_completion_cases [of req e st]
  have r: "reply (chat_completion e req st) = Error_envelope (Text ''Failed to save assistant message'')"
    and s: "store_after (chat_completion e req st) = st"
    by auto
  from r show "reply (chat_completion e req st) = Error_envelope (Text ''Failed to save assistant message'')" .
  from r show "status (reply (chat_completion e req st)) = 500" by simp
  from s show "store_after (chat_completion e req st) = st" .
qed

theorem assistant_reply_persisted_witness:
  "reply (chat_completion demo_env (hi_request ''alice'' ''p1'' ''c1'') demo_store) =
     Completion_ok (Some (JStr ''Hello.'')) (Some (JObj [(''total_tokens'', JNum 9)])) \<and>
   messages (store_after (chat_completion demo_env (hi_request ''alice'' ''p1'' ''c1'') demo_store)) =
     [\<lparr>m_chat_id = ''c1'', m_role = ''assistant'', m_content = ''Hello.''\<rparr>] \<and>
   filter is_insert_message (calls (chat_completion demo_env (hi_request ''alice'' ''p1'' ''c1'') demo_store)) =
     [Insert_message (Some (JStr ''c1'')) ''assistant'' (Some (JStr ''Hello.''))] \<and>
   Insert_message (Some (JStr ''c9'')) ''assistant'' (Some (JStr ''Hello.''))
     \<in> set (calls (chat_completion demo_env (hi_request ''alice'' ''p1'' ''c9'') demo_store)) \<and>
   insert_message demo_env demo_store (Some (JStr ''c9'')) ''assistant'' (Some (JStr ''Hello.'')) = None \<and>
   reply (chat_completion demo_env (hi_request ''alice'' ''p1'' ''c9'') demo_store) =
     Error_envelope (Text ''Failed to save assistant message'') \<and>
   store_after (chat_completion demo_env (hi_request ''alice'' ''p1'' ''c9'') demo_store) = demo_store"
proof -
  have ok: "reply (chat_completion demo_env (hi_request ''alice'' ''p1'' ''c1'') demo_store) =
     Completion_ok (Some (JStr ''Hello.'')) (Some (JObj [(''total_tokens'', JNum 9)]))"
    by (simp add: relay_defs demo_defs)
  have chat: "supplied (hi_request ''alice'' ''p1'' ''c1'') ''chatId'' = Some (JStr ''c1'')"
    by (simp add: supplied_def hi_request_def)
  have uuid: "uuid_of_column demo_env (JStr ''c1'') = Some ''c1''"
    by (simp add: demo_env_def spelled_id_def)
  have empty: "messages demo_store = []"
    by (simp add: demo_store_def)
  from assistant_reply_persisted
         [where e = demo_env and req = "hi_request ''alice'' ''p1'' ''c1''" and st = demo_store
            and msg = "Some (JStr ''Hello.'')"
            and usage = "Some (JObj [(''total_tokens'', JNum 9)])" and s = "''Hello.''"]
       ok chat uuid empty
  have saved:
    "messages (store_after (chat_completion demo_env (hi_request ''alice'' ''p1'' ''c1'') demo_store)) =
       [\<lparr>m_chat_id = ''c1'', m_role = ''assistant'', m_content = ''Hello.''\<rparr>] \<and>
     filter is_insert_message (calls (chat_completion demo_env (hi_request ''alice'' ''p1'' ''c1'') demo_store)) =
       [Insert_message (Some (JStr ''c1'')) ''assistant'' (Some (JStr ''Hello.''))]"
    by auto
  have tried: "Insert_message (Some (JStr ''c9'')) ''assistant'' (Some (JStr ''Hello.''))
     \<in> set (calls (chat_completion demo_env (hi_request ''alice'' ''p1'' ''c9'') demo_store))"
    by (simp add: relay_defs demo_defs)
  have failed: "insert_message demo_env demo_store (Some (JStr ''c9'')) ''assistant''
                  (Some (JStr ''Hello.'')) = None"
    by (simp add: relay_defs demo_defs)
  from assistant_reply_persisted
         [where e = demo_env and req = "hi_request ''alice'' ''p1'' ''c9''" and st = demo_store
            and chat = "Some (JStr ''c9'')" and role = "''assistant''"
            and content = "Some (JStr ''Hello.'')"] tried failed
  have lost:
    "reply (chat_completion demo_env (hi_request ''alice'' ''p1'' ''c9'') demo_store) =
       Error_envelope (Text ''Failed to save assistant message'') \<and>
     store_after (chat_completion demo_env (hi_request ''alice'' ''p1'' ''c9'') demo_store) = demo_store"
    by simp
  from ok saved tried failed lost show ?thesis by simp
qed

section \<open>Facts about the upload relay\<close>

lemma upload_file_run:
  "req_method req \<noteq> ''OPTIONS'' \<Longrightarrow>
   upload_file e req st =
     (case reply (upload_try e req st) of
        Inl err \<Rightarrow> (Error_envelope err, calls (upload_try e req st), store_after (upload_try e req st))
      | Inr (f, fileData) \<Rightarrow>
          (Upload_ok fileData (fst (mirror e f)) ''File uploaded successfully'',
           calls (upload_try e req st) @ snd (mirror e f), store_after (upload_try e req st)))"
  by (auto simp: upload_file_def reply_def calls_def store_after_def split: sum.splits prod.splits)

lemma upload_file_preflight:
  "req_method req = ''OPTIONS'' \<Longrightarrow> upload_file e req st = (Preflight, [], st)"
  by (simp add: upload_file_def)

lemma split_on_not_Nil: "split_on c s \<noteq> []"
  by (induction s) (auto split: list.splits)

lemma pop_split_on: "pop (split_on c s) = Some (last (split_on c s))"
  by (simp add: pop_def split_on_not_Nil)

text \<open>The \<open>try\<close> block either stops before any call or runs the storage part.\<close>

lemma upload_try_cases:
  "(calls (upload_try e req st) = [] \<and> store_after (upload_try e req st) = st \<and>
    (\<exists>err. reply (upload_try e req st) = Inl err)) \<or>
   (\<exists>f pid uid.
      form_field req ''file'' = Some (File_entry f) \<and>
      form_field req ''projectId'' = Some pid \<and>
      form_field req ''userId'' = Some uid \<and>
      upload_try e req st = store_and_record e st f pid uid)"
  by (auto simp: upload_try_def form_field_def calls_def reply_def store_after_def Let_def
           split: parsed.splits option.splits form_entry.splits)

text \<open>The storage part: its calls, and what each outcome leaves.\<close>

lemma store_and_record_cases:
  "\<exists>ext path.
     pop (split_on CHR ''.'' (file_name f)) = Some ext \<and>
     path = entry_text uid @ ''/'' @ random_uuid e @ ''.'' @ ext \<and>
     (let ins = Insert_file pid (file_name f) (file_size f) (file_type f) path in
      (store_and_record e st f pid uid =
         (Inl (Text ''Failed to upload file to storage''), [Upload_object path f], st) \<and>
       (storage_fault e \<or> upload_object e st path f = None)) \<or>
      (\<exists>st1. \<not> storage_fault e \<and> upload_object e st path f = Some st1 \<and>
         ((store_and_record e st f pid uid =
             (Inl (Text ''Failed to save file metadata''), [Upload_object path f, ins], st1) \<and>
           (file_insert_fault e \<or>
            insert_file e st1 pid (file_name f) (file_size f) (file_type f) path = None)) \<or>
          (\<exists>fileData st2. \<not> file_insert_fault e \<and>
             insert_file e st1 pid (file_name f) (file_size f) (file_type f) path = Some (fileData, st2) \<and>
             store_and_record e st f pid uid = (Inr (f, fileData), [Upload_object path f, ins], st2)))))"
  by (auto simp: store_and_record_def pop_split_on Let_def split: option.splits)

text \<open>The mirroring block makes at most the one call, and only with a key and a small file.\<close>

lemma mirror_calls:
  "snd (mirror e f) =
     (case nonempty (openai_api_key e) of
        None \<Rightarrow> []
      | Some k \<Rightarrow> if file_size f \<le> mirror_limit then [Post_file k f] else [])"
  by (auto simp: mirror_def split: option.splits)

lemma mirror_failed_null:
  "nonempty (openai_api_key e) = Some k \<Longrightarrow> mirror_failed (files_api e k f) \<Longrightarrow>
   fst (mirror e f) = Some JNull"
  by (auto simp: mirror_def split: option.splits fetch_result.splits)

lemma mirror_unattempted_null:
  "snd (mirror e f) = [] \<Longrightarrow> fst (mirror e f) = Some JNull"
  by (auto simp: mirror_def split: option.splits if_splits)

lemma mirror_only_posts: "x \<in> set (snd (mirror e f)) \<Longrightarrow> is_post_file x"
  by (auto simp: mirror_calls split: option.splits if_splits)

lemma truthy_str_nonempty: "truthy_str k = (nonempty k \<noteq> None)"
  by (cases k) auto



lemma upload_file_calls:
  assumes "x \<in> set (calls (upload_file e req st))" and "\<not> is_post_file x"
  shows "req_method req \<noteq> ''OPTIONS'' \<and> x \<in> set (calls (upload_try e req st))"
proof -
  from assms(1) have m: "req_method req \<noteq> ''OPTIONS''"
    by (auto simp: upload_file_preflight calls_def)
  from assms upload_file_run [OF m, of e st]
  have "x \<in> set (calls (upload_try e req st))"
    by (auto simp: calls_def split: sum.splits dest: mirror_only_posts)
  with m show ?thesis by simp
qed

text \<open>When the metadata insert is attempted, the object has been stored.\<close>

lemma insert_file_attempted:
  assumes "Insert_file pid name sz ty path \<in> set (calls (upload_try e req st))"
  shows "\<exists>f st1.
           upload_object e st path f = Some st1 \<and>
           calls (upload_try e req st) = [Upload_object path f, Insert_file pid name sz ty path] \<and>
           (file_insert_fault e \<or> insert_file e st1 pid name sz ty path = None \<longrightarrow>
              reply (upload_try e req st) = Inl (Text ''Failed to save file metadata'') \<and>
              store_after (upload_try e req st) = st1)"
proof -
  from assms upload_try_cases [of e req st]
  obtain f p uid where run: "upload_try e req st = store_and_record e st f p uid"
    by auto
  from store_and_record_cases [of f uid e p st] assms run
  show ?thesis
    by (auto simp: calls_def reply_def store_after_def Let_def)
qed


lemma upload_try_posts_nothing: "filter is_post_file (calls (upload_try e req st)) = []"
proof -
  from upload_try_cases [of e req st] show ?thesis
  proof
    assume "calls (upload_try e req st) = [] \<and> store_after (upload_try e req st) = st \<and>
            (\<exists>err. reply (upload_try e req st) = Inl err)"
    then show ?thesis by simp
  next
    assume "\<exists>f pid uid.
      form_field req ''file'' = Some (File_entry f) \<and>
      form_field req ''projectId'' = Some pid \<and>
      form_field req ''userId'' = Some uid \<and>
      upload_try e req st = store_and_record e st f pid uid"
    then obtain f pid uid where "upload_try e req st = store_and_record e st f pid uid" by auto
    with store_and_record_cases [of f uid e pid st] show ?thesis
      by (auto simp: calls_def Let_def)
  qed
qed

text \<open>A request that lacks a field is answered before any call is made.\<close>

lemma completion_missing:
  assumes "req_method req \<noteq> ''OPTIONS''" and "completion_fields_missing req"
  shows "chat_completion e req st =
           (Error_envelope
              (case req_json req of
                 Parse_error m \<Rightarrow> Text m
               | Parsed body \<Rightarrow>
                   if body = JNull then Engine Destructure_of_null
                   else Text ''Missing required parameters: messages, chatId, and projectId''),
            [], st)"
proof (cases "req_json req")
  case (Parse_error m)
  with assms(1) show ?thesis
    by (simp add: chat_completion_def chat_completion_try_def)
next
  case (Parsed body)
  with assms show ?thesis
    by (cases "body = JNull")
       (auto simp: chat_completion_def chat_completion_try_def completion_fields_missing_def
                   supplied_def Let_def)
qed

lemma upload_missing:
  assumes "req_method req \<noteq> ''OPTIONS''" and "upload_fields_missing req"
  shows "upload_file e req st =
           (Error_envelope
              (case req_form req of
                 Parse_error m \<Rightarrow> Text m
               | Parsed fd \<Rightarrow> Text ''Missing required parameters: file, projectId, and userId''),
            [], st)"
proof (cases "req_form req")
  case (Parse_error m)
  with assms(1) show ?thesis
    by (simp add: upload_file_def upload_try_def)
next
  case (Parsed fd)
  with assms show ?thesis
    by (auto simp: upload_file_def upload_try_def upload_fields_missing_def form_field_def Let_def)
qed

text \<open>The identifiers in the calls are the supplied ones.\<close>

lemma chat_completion_try_identifiers:
  "(Select_project v \<in> set (calls (chat_completion_try e req st)) \<longrightarrow>
      v = supplied req ''projectId'') \<and>
   (Insert_message c r x \<in> set (calls (chat_completion_try e req st)) \<longrightarrow>
      c = supplied req ''chatId'')"
  by (auto simp: chat_completion_try_def supplied_def calls_def Let_def
           split: parsed.splits option.splits fetch_result.splits sum.splits)

lemma store_and_record_identifiers:
  "Insert_file pid n s t p \<in> set (calls (store_and_record e st f projectId userId)) \<Longrightarrow>
   pid = projectId \<and> (\<exists>rest. p = entry_text userId @ ''/'' @ rest)"
  by (auto simp: store_and_record_def calls_def Let_def split: option.splits)

text \<open>No statement of a relay reads an owner or the project of a chat.\<close>

lemma select_system_prompt_reassign:
  "select_system_prompt e (reassign f g st) v = select_system_prompt e st v"
proof -
  have "filter (\<lambda>p. uuid_of_filter e v = Some (p_id p))
          (map (\<lambda>p. p\<lparr>p_user_id := f p\<rparr>) (projects st)) =
        map (\<lambda>p. p\<lparr>p_user_id := f p\<rparr>)
          (filter (\<lambda>p. uuid_of_filter e v = Some (p_id p)) (projects st))"
    by (induction "projects st") (auto simp: filter_map o_def)
  then show ?thesis
    by (auto simp: select_system_prompt_def reassign_def split: list.splits)
qed

lemma add_message_reassign:
  "add_message (reassign f g st) m = map_option (reassign f g) (add_message st m)"
  by (auto simp: add_message_def reassign_def image_image)

lemma insert_message_reassign:
  "insert_message e (reassign f g st) chat role content =
     map_option (reassign f g) (insert_message e st chat role content)"
  by (auto simp: insert_message_def add_message_reassign split: option.splits)

lemma upload_object_reassign:
  "upload_object e (reassign f g st) path fl =
     map_option (reassign f g) (upload_object e st path fl)"
  by (auto simp: upload_object_def reassign_def)

lemma insert_file_reassign:
  "insert_file e (reassign f g st) pid name sz ty path =
     map_option (\<lambda>(row, s). (row, reassign f g s)) (insert_file e st pid name sz ty path)"
  by (auto simp: insert_file_def reassign_def image_image Let_def
           split: form_entry.splits option.splits)

lemma chat_completion_try_reassign:
  "chat_completion_try e (req\<lparr>req_auth_uid := u\<rparr>) (reassign f g st) =
     (case chat_completion_try e req st of (r, fx, st') \<Rightarrow> (r, fx, reassign f g st'))"
  by (auto simp: chat_completion_try_def select_system_prompt_reassign insert_message_reassign Let_def
           split: parsed.splits option.splits fetch_result.splits sum.splits)

lemma store_and_record_reassign:
  "store_and_record e (reassign f g st) fl pid uid =
     (case store_and_record e st fl pid uid of (r, fx, st') \<Rightarrow> (r, fx, reassign f g st'))"
  by (auto simp: store_and_record_def upload_object_reassign insert_file_reassign Let_def
           split: option.splits)

lemma upload_try_reassign:
  "upload_try e (req\<lparr>req_auth_uid := u\<rparr>) (reassign f g st) =
     (case upload_try e req st of (r, fx, st') \<Rightarrow> (r, fx, reassign f g st'))"
  by (auto simp: upload_try_def store_and_record_reassign Let_def
           split: parsed.splits option.splits form_entry.splits)

text \<open>The policies for messages, and what each writer does to the roles stored.\<close>

lemma no_update_policy: "\<not> rls_permits st uid Update Messages r"
  by (simp add: rls_permits_def policies_def)

lemma no_delete_policy: "\<not> rls_permits st uid Delete Messages r"
  by (simp add: rls_permits_def policies_def)

lemma insert_message_roles:
  assumes "roles_ok st" and "insert_message e st chat role content = Some st'"
  shows "roles_ok st' \<and> (\<exists>m. messages st' = messages st @ [m] \<and> role_check (m_role m))"
  using assms
  by (auto simp: insert_message_def add_message_def roles_ok_def split: option.splits if_splits)

lemma add_message_roles:
  assumes "roles_ok st" and "add_message st m = Some st'"
  shows "roles_ok st'"
  using assms by (auto simp: add_message_def roles_ok_def split: if_splits)

lemma chat_completion_try_store:
  "store_after (chat_completion_try e req st) = st \<or>
   (\<exists>chat content. insert_message e st chat ''assistant'' content =
                     Some (store_after (chat_completion_try e req st)))"
  by (auto simp: chat_completion_try_def store_after_def Let_def
           split: parsed.splits option.splits fetch_result.splits sum.splits)

lemma chat_completion_roles:
  assumes "roles_ok st"
  shows "roles_ok (store_after (chat_completion e req st))"
proof (cases "req_method req = ''OPTIONS''")
  case True
  with assms show ?thesis by (simp add: chat_completion_def store_after_def)
next
  case False
  then have "store_after (chat_completion e req st) = store_after (chat_completion_try e req st)"
    by (auto simp: chat_completion_def store_after_def split: prod.splits sum.splits)
  with chat_completion_try_store [of e req st] assms insert_message_roles [OF assms]
  show ?thesis by auto
qed

lemma upload_file_messages:
  "messages (store_after (upload_file e req st)) = messages st"
proof (cases "req_method req = ''OPTIONS''")
  case True
  then show ?thesis by (simp add: upload_file_preflight store_after_def)
next
  case False
  from upload_file_run [OF False, of e st]
  have s: "store_after (upload_file e req st) = store_after (upload_try e req st)"
    by (auto simp: store_after_def split: sum.splits)
  from upload_try_cases [of e req st] show ?thesis
  proof
    assume "calls (upload_try e req st) = [] \<and> store_after (upload_try e req st) = st \<and>
            (\<exists>err. reply (upload_try e req st) = Inl err)"
    with s show ?thesis by simp
  next
    assume "\<exists>f pid uid.
      form_field req ''file'' = Some (File_entry f) \<and>
      form_field req ''projectId'' = Some pid \<and>
      form_field req ''userId'' = Some uid \<and>
      upload_try e req st = store_and_record e st f pid uid"
    then obtain f pid uid where "upload_try e req st = store_and_record e st f pid uid" by auto
    with s store_and_record_cases [of f uid e pid st] show ?thesis
      by (auto simp: store_after_def Let_def upload_object_def insert_file_def
               split: if_splits form_entry.splits option.splits)
  qed
qed

lemma delete_project_roles: "roles_ok st \<Longrightarrow> roles_ok (delete_project e st uid pid)"
  by (auto simp: delete_project_def roles_ok_def Let_def list_all_iff)

section \<open>The claims about the upload relay\<close>




text \<open>
  C7. For every upload-relay request (other than a preflight) that reaches the
  mirroring step, that is, whose storage write and metadata insert succeeded: the
  response is the success response with the inserted row, whatever the mirror does,
  and a mirror call that fails leaves \<^verbatim>\<open>openaiFileId\<close> at \<^verbatim>\<open>null\<close>; exactly one
  mirror call is made if a key is configured (a non-empty \<^verbatim>\<open>OPENAI_API_KEY\<close>) and
  the file has at most 20 MiB; none is made if no key is configured, and none if the
  file is larger.
\<close>

theorem mirror_attempts:
  assumes "req_method req \<noteq> ''OPTIONS''"
    and "reply (upload_try e req st) = Inr (f, fileData)"
  shows "(\<exists>fid. reply (upload_file e req st) =
                  Upload_ok fileData fid ''File uploaded successfully'' \<and>
                (\<forall>k. openai_api_key e = Some k \<and> mirror_failed (files_api e k f) \<longrightarrow>
                     fid = Some JNull)) \<and>
         status (reply (upload_file e req st)) = 200 \<and>
         store_after (upload_file e req st) = store_after (upload_try e req st) \<and>
         (truthy_str (openai_api_key e) \<and> length (file_bytes f) \<le> 20 * 1024 * 1024 \<longrightarrow>
            length (filter is_post_file (calls (upload_file e req st))) = 1) \<and>
         (\<not> truthy_str (openai_api_key e) \<longrightarrow>
            length (filter is_post_file (calls (upload_file e req st))) = 0) \<and>
         (20 * 1024 * 1024 < length (file_bytes f) \<longrightarrow>
            length (filter is_post_file (calls (upload_file e req st))) = 0)"
proof -
  from upload_file_run [OF assms(1), of e st] assms(2)
  have run: "upload_file e req st =
      (Upload_ok fileData (fst (mirror e f)) ''File uploaded successfully'',
       calls (upload_try e req st) @ snd (mirror e f), store_after (upload_try e req st))"
    by simp
  have null: "\<forall>k. openai_api_key e = Some k \<and> mirror_failed (files_api e k f) \<longrightarrow>
                fst (mirror e f) = Some JNull"
  proof (intro allI impI)
    fix k assume a: "openai_api_key e = Some k \<and> mirror_failed (files_api e k f)"
    show "fst (mirror e f) = Some JNull"
    proof (cases "k = []")
      case True
      with a have "snd (mirror e f) = []" by (simp add: mirror_calls)
      then show ?thesis by (rule mirror_unattempted_null)
    next
      case False
      with a have "nonempty (openai_api_key e) = Some k" by simp
      with a show ?thesis by (simp add: mirror_failed_null)
    qed
  qed
  have count: "length (filter is_post_file (calls (upload_file e req st))) =
      (if truthy_str (openai_api_key e) \<and> file_size f \<le> mirror_limit then 1 else 0)"
    using run by (cases "openai_api_key e")
      (auto simp: calls_def upload_try_posts_nothing [unfolded calls_def] mirror_calls)
  from run null count show ?thesis
    by (auto simp: reply_def store_after_def file_size_def mirror_limit_def)
qed

theorem mirror_attempts_witness:
  "req_method (notes_request ''alice'' ''p1'') \<noteq> ''OPTIONS'' \<and>
   reply (upload_try mirror_down_env (notes_request ''alice'' ''p1'') demo_store) =
     Inr (notes_file, notes_row) \<and>
   openai_api_key mirror_down_env = Some ''sk-test'' \<and>
   mirror_failed (files_api mirror_down_env ''sk-test'' notes_file) \<and>
   truthy_str (openai_api_key mirror_down_env) \<and>
   length (file_bytes notes_file) \<le> 20 * 1024 * 1024 \<and>
   reply (upload_file mirror_down_env (notes_request ''alice'' ''p1'') demo_store) =
     Upload_ok notes_row (Some JNull) ''File uploaded successfully'' \<and>
   length (filter is_post_file
     (calls (upload_file mirror_down_env (notes_request ''alice'' ''p1'') demo_store))) = 1 \<and>
   reply (upload_try no_key_env (notes_request ''alice'' ''p1'') demo_store) =
     Inr (notes_file, notes_row) \<and>
   \<not> truthy_str (openai_api_key no_key_env) \<and>
   length (filter is_post_file
     (calls (upload_file no_key_env (notes_request ''alice'' ''p1'') demo_store))) = 0"
proof -
  have m: "req_method (notes_request ''alice'' ''p1'') \<noteq> ''OPTIONS''"
    by (simp add: notes_request_def)
  have t1: "reply (upload_try mirror_down_env (notes_request ''alice'' ''p1'') demo_store) =
     Inr (notes_file, notes_row)"
    by (simp add: relay_defs demo_defs Let_def)
  have k1: "openai_api_key mirror_down_env = Some ''sk-test''"
    and f1: "mirror_failed (files_api mirror_down_env ''sk-test'' notes_file)"
    and y1: "truthy_str (openai_api_key mirror_down_env)"
    by (simp_all add: demo_defs)
  have small: "length (file_bytes notes_file) \<le> 20 * 1024 * 1024"
    by (simp add: notes_file_def)
  from mirror_attempts [OF m t1] k1 f1 y1 small
  have r1: "reply (upload_file mirror_down_env (notes_request ''alice'' ''p1'') demo_store) =
     Upload_ok notes_row (Some JNull) ''File uploaded successfully'' \<and>
     length (filter is_post_file
       (calls (upload_file mirror_down_env (notes_request ''alice'' ''p1'') demo_store))) = 1"
    by auto
  have t2: "reply (upload_try no_key_env (notes_request ''alice'' ''p1'') demo_store) =
     Inr (notes_file, notes_row)"
    by (simp add: relay_defs demo_defs Let_def)
  have y2: "\<not> truthy_str (openai_api_key no_key_env)"
    by (simp add: demo_defs)
  from mirror_attempts [OF m t2] y2
  have r2: "length (filter is_post_file
     (calls (upload_file no_key_env (notes_request ''alice'' ''p1'') demo_store))) = 0"
    by simp
  from m t1 k1 f1 y1 small r1 t2 y2 r2 show ?thesis by simp
qed

text \<open>
  C8. If the storage write of an upload-relay request succeeds and the metadata insert
  that follows fails, the response is the error envelope
  \<^verbatim>\<open>Failed to save file metadata\<close> with status 500; the store is left as the
  storage write left it, with the object in the bucket (under the key of its path) and
  no File row added, and the relay has made exactly the two calls: no call removes
  the object.
\<close>

theorem orphaned_object_on_metadata_failure:
  assumes "Upload_object path f \<in> set (calls (upload_file e req st))"
    and "upload_object e st path f = Some st1"
    and "Insert_file pid name sz ty path \<in> set (calls (upload_file e req st))"
    and "file_insert_fault e \<or> insert_file e st1 pid name sz ty path = None"
  shows "reply (upload_file e req st) = Error_envelope (Text ''Failed to save file metadata'') \<and>
         status (reply (upload_file e req st)) = 500 \<and>
         store_after (upload_file e req st) = st1 \<and>
         bucket (store_after (upload_file e req st)) = bucket st @ [(object_key e path, f)] \<and>
         files (store_after (upload_file e req st)) = files st \<and>
         calls (upload_file e req st) = [Upload_object path f, Insert_file pid name sz ty path] \<and>
         filter is_remove_object (calls (upload_file e req st)) = []"
proof -
  from upload_file_calls [OF assms(3)]
  have m: "req_method req \<noteq> ''OPTIONS''"
    and ins: "Insert_file pid name sz ty path \<in> set (calls (upload_try e req st))" by simp_all
  from upload_file_calls [OF assms(1)]
  have upl: "Upload_object path f \<in> set (calls (upload_try e req st))" by simp
  from insert_file_attempted [OF ins]
  obtain g st2 where
    up: "upload_object e st path g = Some st2"
    and tr: "calls (upload_try e req st) = [Upload_object path g, Insert_file pid name sz ty path]"
    and fail: "file_insert_fault e \<or> insert_file e st2 pid name sz ty path = None \<longrightarrow>
              reply (upload_try e req st) = Inl (Text ''Failed to save file metadata'') \<and>
              store_after (upload_try e req st) = st2"
    by auto
  from upl tr have "g = f" by simp
  with up assms(2) have "st2 = st1" by simp
  with fail assms(4)
  have r: "reply (upload_try e req st) = Inl (Text ''Failed to save file metadata'')"
    and s: "store_after (upload_try e req st) = st1" by simp_all
  from upload_file_run [OF m, of e st] r s tr \<open>g = f\<close>
  have run: "upload_file e req st =
         (Error_envelope (Text ''Failed to save file metadata''),
          [Upload_object path f, Insert_file pid name sz ty path], st1)"
    by simp
  from assms(2) have "bucket st1 = bucket st @ [(object_key e path, f)]" "files st1 = files st"
    by (auto simp: upload_object_def split: if_splits)
  with run show ?thesis
    by (simp add: reply_def calls_def store_after_def)
qed

theorem orphaned_object_on_metadata_failure_witness:
  "Upload_object ''alice/0b1e.txt'' notes_file
     \<in> set (calls (upload_file metadata_fault_env (notes_request ''alice'' ''p1'') demo_store)) \<and>
   upload_object metadata_fault_env demo_store ''alice/0b1e.txt'' notes_file = Some uploaded_store \<and>
   Insert_file (Text_entry ''p1'') ''notes.txt'' 5120 ''text/plain'' ''alice/0b1e.txt''
     \<in> set (calls (upload_file metadata_fault_env (notes_request ''alice'' ''p1'') demo_store)) \<and>
   file_insert_fault metadata_fault_env \<and>
   reply (upload_file metadata_fault_env (notes_request ''alice'' ''p1'') demo_store) =
     Error_envelope (Text ''Failed to save file metadata'') \<and>
   store_after (upload_file metadata_fault_env (notes_request ''alice'' ''p1'') demo_store) =
     uploaded_store \<and>
   bucket (store_after (upload_file metadata_fault_env (notes_request ''alice'' ''p1'') demo_store)) =
     [(''alice/0b1e.txt'', notes_file)] \<and>
   files (store_after (upload_file metadata_fault_env (notes_request ''alice'' ''p1'') demo_store)) = [] \<and>
   filter is_remove_object
     (calls (upload_file metadata_fault_env (notes_request ''alice'' ''p1'') demo_store)) = []"
proof -
  have up: "Upload_object ''alice/0b1e.txt'' notes_file
     \<in> set (calls (upload_file metadata_fault_env (notes_request ''alice'' ''p1'') demo_store))"
    by (simp add: relay_defs demo_defs Let_def)
  have stored: "upload_object metadata_fault_env demo_store ''alice/0b1e.txt'' notes_file =
                  Some uploaded_store"
    by (simp add: relay_defs demo_defs Let_def)
  have ins: "Insert_file (Text_entry ''p1'') ''notes.txt'' 5120 ''text/plain'' ''alice/0b1e.txt''
     \<in> set (calls (upload_file metadata_fault_env (notes_request ''alice'' ''p1'') demo_store))"
    by (simp add: relay_defs demo_defs Let_def)
  have fault: "file_insert_fault metadata_fault_env"
    by (simp add: demo_defs)
  have key: "object_key metadata_fault_env ''alice/0b1e.txt'' = ''alice/0b1e.txt''"
    by (simp add: demo_defs clean_path_def trim_slashes_def)
  have before: "bucket demo_store = []" "files demo_store = []"
    by (simp_all add: demo_store_def)
  have after: "bucket uploaded_store = [(''alice/0b1e.txt'', notes_file)]" "files uploaded_store = []"
    by (simp_all add: uploaded_store_def demo_store_def)
  from orphaned_object_on_metadata_failure [OF up stored ins disjI1 [OF fault]]
       up stored ins fault key before after
  show ?thesis by simp
qed

section \<open>The claims about both relays and about the schema\<close>

text \<open>
  C4 (as amended). For every request to either relay, other than the \<^verbatim>\<open>OPTIONS\<close>
  preflight, in which a required field is missing or falsy (\<^verbatim>\<open>messages\<close>,
  \<^verbatim>\<open>chatId\<close>, \<^verbatim>\<open>projectId\<close> of the completion relay; \<^verbatim>\<open>file\<close>,
  \<^verbatim>\<open>projectId\<close>, \<^verbatim>\<open>userId\<close> of the upload relay), the relay returns the error
  envelope with status 500 (no error escapes the handler), makes no storage, database
  or upstream call and leaves the store as it was. The message of the envelope names the missing parameters when the
  body was parsed (a JSON value other than \<^verbatim>\<open>null\<close>; a form); it is the message
  of the body parser when the body could not be parsed, and the message of the
  engine's type error when the JSON body is \<^verbatim>\<open>null\<close>.
\<close>

theorem missing_fields_rejected:
  "(req_method req \<noteq> ''OPTIONS'' \<and> completion_fields_missing req \<longrightarrow>
      chat_completion e req st =
        (Error_envelope
           (case req_json req of
              Parse_error m \<Rightarrow> Text m
            | Parsed body \<Rightarrow>
                if body = JNull then Engine Destructure_of_null
                else Text ''Missing required parameters: messages, chatId, and projectId''),
         [], st) \<and>
      status (reply (chat_completion e req st)) = 500) \<and>
   (req_method req \<noteq> ''OPTIONS'' \<and> upload_fields_missing req \<longrightarrow>
      upload_file e req st =
        (Error_envelope
           (case req_form req of
              Parse_error m \<Rightarrow> Text m
            | Parsed fd \<Rightarrow> Text ''Missing required parameters: file, projectId, and userId''),
         [], st) \<and>
      status (reply (upload_file e req st)) = 500)"
  using completion_missing [of req e st] upload_missing [of req e st]
  by (simp add: reply_def)

theorem missing_fields_rejected_witness:
  "req_method (empty_request ''POST'') \<noteq> ''OPTIONS'' \<and>
   completion_fields_missing (empty_request ''POST'') \<and>
   upload_fields_missing (empty_request ''POST'') \<and>
   req_json (empty_request ''POST'') = Parsed (JObj []) \<and> JObj [] \<noteq> JNull \<and>
   req_form (empty_request ''POST'') = Parsed [] \<and>
   chat_completion demo_env (empty_request ''POST'') demo_store =
     (Error_envelope (Text ''Missing required parameters: messages, chatId, and projectId''),
      [], demo_store) \<and>
   status (reply (chat_completion demo_env (empty_request ''POST'') demo_store)) = 500 \<and>
   upload_file demo_env (empty_request ''POST'') demo_store =
     (Error_envelope (Text ''Missing required parameters: file, projectId, and userId''),
      [], demo_store) \<and>
   status (reply (upload_file demo_env (empty_request ''POST'') demo_store)) = 500"
proof -
  have m: "req_method (empty_request ''POST'') \<noteq> ''OPTIONS''"
    and c: "completion_fields_missing (empty_request ''POST'')"
    and u: "upload_fields_missing (empty_request ''POST'')"
    and j: "req_json (empty_request ''POST'') = Parsed (JObj [])"
    and f: "req_form (empty_request ''POST'') = Parsed []"
    by (simp_all add: empty_request_def completion_fields_missing_def upload_fields_missing_def
          supplied_def form_field_def)
  from missing_fields_rejected [of "empty_request ''POST''" demo_env demo_store] m c u j f
  have "chat_completion demo_env (empty_request ''POST'') demo_store =
     (Error_envelope (Text ''Missing required parameters: messages, chatId, and projectId''),
      [], demo_store) \<and>
   status (reply (chat_completion demo_env (empty_request ''POST'') demo_store)) = 500 \<and>
   upload_file demo_env (empty_request ''POST'') demo_store =
     (Error_envelope (Text ''Missing required parameters: file, projectId, and userId''),
      [], demo_store) \<and>
   status (reply (upload_file demo_env (empty_request ''POST'') demo_store)) = 500"
    by (simp add: reply_def)
  with m c u j f show ?thesis by (simp add: reply_def)
qed

text \<open>
  C4 as stated fails: the message does not always describe the missing parameters.
  A POST without a body supplies none of the required fields, and either relay
  answers it with the message of its body parser; a POST whose JSON body is
  \<^verbatim>\<open>null\<close> supplies none either, and the completion relay answers it with the
  message of the engine's type error.
\<close>

theorem unparsed_body_message_not_missing_parameters:
  "req_method bodyless_request \<noteq> ''OPTIONS'' \<and>
   completion_fields_missing bodyless_request \<and>
   upload_fields_missing bodyless_request \<and>
   chat_completion demo_env bodyless_request demo_store =
     (Error_envelope (Text ''Unexpected end of JSON input''), [], demo_store) \<and>
   Text ''Unexpected end of JSON input'' \<noteq>
     Text ''Missing required parameters: messages, chatId, and projectId'' \<and>
   upload_file demo_env bodyless_request demo_store =
     (Error_envelope (Text ''Missing content type''), [], demo_store) \<and>
   Text ''Missing content type'' \<noteq>
     Text ''Missing required parameters: file, projectId, and userId'' \<and>
   req_method null_body_request \<noteq> ''OPTIONS'' \<and>
   completion_fields_missing null_body_request \<and>
   chat_completion demo_env null_body_request demo_store =
     (Error_envelope (Engine Destructure_of_null), [], demo_store) \<and>
   Engine Destructure_of_null \<noteq>
     Text ''Missing required parameters: messages, chatId, and projectId''"
  by (simp add: bodyless_request_def null_body_request_def completion_fields_missing_def
        upload_fields_missing_def supplied_def form_field_def chat_completion_def
        chat_completion_try_def upload_file_def upload_try_def)

text \<open>
  C5. Neither relay verifies ownership or consistency. Give every project another
  owner and every chat another project, and let another user send the request: each
  relay returns the same response, makes the same calls, and changes the store in the
  same way. The project selected is the supplied \<^verbatim>\<open>projectId\<close>, the chat inserted
  into is the supplied \<^verbatim>\<open>chatId\<close>, and the File row carries the supplied
  \<^verbatim>\<open>projectId\<close> and a path under the supplied \<^verbatim>\<open>userId\<close>.
\<close>

theorem relays_ignore_ownership:
  "chat_completion e (req\<lparr>req_auth_uid := u\<rparr>) (reassign owner_of project_of st) =
     (case chat_completion e req st of
        (r, fx, st') \<Rightarrow> (r, fx, reassign owner_of project_of st')) \<and>
   upload_file e (req\<lparr>req_auth_uid := u\<rparr>) (reassign owner_of project_of st) =
     (case upload_file e req st of
        (r, fx, st') \<Rightarrow> (r, fx, reassign owner_of project_of st')) \<and>
   (Select_project v \<in> set (calls (chat_completion e req st)) \<longrightarrow>
      v = supplied req ''projectId'') \<and>
   (Insert_message c r x \<in> set (calls (chat_completion e req st)) \<longrightarrow>
      c = supplied req ''chatId'') \<and>
   (Insert_file pid n s t path \<in> set (calls (upload_file e req st)) \<longrightarrow>
      form_field req ''projectId'' = Some pid \<and>
      (\<exists>uid rest. form_field req ''userId'' = Some uid \<and> path = entry_text uid @ ''/'' @ rest))"
proof -
  have commute: "chat_completion e (req\<lparr>req_auth_uid := u\<rparr>) (reassign owner_of project_of st) =
     (case chat_completion e req st of
        (r, fx, st') \<Rightarrow> (r, fx, reassign owner_of project_of st')) \<and>
   upload_file e (req\<lparr>req_auth_uid := u\<rparr>) (reassign owner_of project_of st) =
     (case upload_file e req st of
        (r, fx, st') \<Rightarrow> (r, fx, reassign owner_of project_of st'))"
    by (auto simp: chat_completion_def upload_file_def chat_completion_try_reassign
                   upload_try_reassign
             split: prod.splits sum.splits)
  have sel: "Select_project v \<in> set (calls (chat_completion e req st)) \<longrightarrow>
      v = supplied req ''projectId''"
    using chat_completion_calls [of "Select_project v" e req st]
      chat_completion_try_identifiers [of v e req st] by blast
  have ins: "Insert_message c r x \<in> set (calls (chat_completion e req st)) \<longrightarrow>
      c = supplied req ''chatId''"
    using chat_completion_calls [of "Insert_message c r x" e req st]
      chat_completion_try_identifiers [of _ e req st c r x] by blast
  have fil: "Insert_file pid n s t path \<in> set (calls (upload_file e req st)) \<longrightarrow>
      form_field req ''projectId'' = Some pid \<and>
      (\<exists>uid rest. form_field req ''userId'' = Some uid \<and> path = entry_text uid @ ''/'' @ rest)"
  proof
    assume a: "Insert_file pid n s t path \<in> set (calls (upload_file e req st))"
    from upload_file_calls [OF a]
    have b: "Insert_file pid n s t path \<in> set (calls (upload_try e req st))" by simp
    with upload_try_cases [of e req st]
    obtain f p uid where
      "form_field req ''projectId'' = Some p"
      "form_field req ''userId'' = Some uid"
      "upload_try e req st = store_and_record e st f p uid"
      by auto
    with b store_and_record_identifiers [of pid n s t path e st f p uid]
    show "form_field req ''projectId'' = Some pid \<and>
      (\<exists>uid rest. form_field req ''userId'' = Some uid \<and> path = entry_text uid @ ''/'' @ rest)"
      by auto
  qed
  from commute sel ins fil show ?thesis by blast
qed

text \<open>
  An instance: chat \<open>c2\<close> belongs to project \<open>p2\<close> of \<open>bob\<close>, and a policy would
  refuse \<open>alice\<close> an insert into it; her request with \<open>projectId = p1\<close> and
  \<open>chatId = c2\<close> is served with the prompt of \<open>p1\<close> and the reply is stored in
  \<open>c2\<close>. An upload with \<open>userId = bob\<close> into project \<open>p3\<close> of \<open>carol\<close> is
  served as well.
\<close>

theorem relays_ignore_ownership_witness:
  "c_project_id \<lparr>c_id = ''c2'', c_project_id = ''p2''\<rparr> \<noteq> ''p1'' \<and>
   \<not> rls_permits demo_store (Some ''alice'') Insert Messages
        (Message_row \<lparr>m_chat_id = ''c2'', m_role = ''assistant'', m_content = ''Hello.''\<rparr>) \<and>
   chat_completion demo_env (hi_request ''alice'' ''p1'' ''c2'') demo_store =
     (Completion_ok (Some (JStr ''Hello.'')) (Some (JObj [(''total_tokens'', JNum 9)])),
      [Select_project (Some (JStr ''p1'')), Post_completion ''sk-test'' terse_call,
       Insert_message (Some (JStr ''c2'')) ''assistant'' (Some (JStr ''Hello.''))],
      demo_store\<lparr>messages :=
        [\<lparr>m_chat_id = ''c2'', m_role = ''assistant'', m_content = ''Hello.''\<rparr>]\<rparr>) \<and>
   chat_completion demo_env ((hi_request ''alice'' ''p1'' ''c2'')\<lparr>req_auth_uid := Some ''bob''\<rparr>)
       (reassign (\<lambda>p. ''bob'') (\<lambda>c. ''p1'') demo_store) =
     (Completion_ok (Some (JStr ''Hello.'')) (Some (JObj [(''total_tokens'', JNum 9)])),
      [Select_project (Some (JStr ''p1'')), Post_completion ''sk-test'' terse_call,
       Insert_message (Some (JStr ''c2'')) ''assistant'' (Some (JStr ''Hello.''))],
      reassign (\<lambda>p. ''bob'') (\<lambda>c. ''p1'')
        (demo_store\<lparr>messages :=
           [\<lparr>m_chat_id = ''c2'', m_role = ''assistant'', m_content = ''Hello.''\<rparr>]\<rparr>)) \<and>
   reply (upload_file demo_env (notes_request ''bob'' ''p3'') demo_store) =
     Upload_ok \<lparr>f_project_id = ''p3'', f_name = ''notes.txt'', f_size = 5120,
                f_type = ''text/plain'', f_storage_path = ''bob/0b1e.txt''\<rparr>
       (Some (JStr ''file-1'')) ''File uploaded successfully'' \<and>
   reply (upload_file demo_env ((notes_request ''bob'' ''p3'')\<lparr>req_auth_uid := Some ''carol''\<rparr>)
            (reassign (\<lambda>p. ''bob'') (\<lambda>c. ''p1'') demo_store)) =
     Upload_ok \<lparr>f_project_id = ''p3'', f_name = ''notes.txt'', f_size = 5120,
                f_type = ''text/plain'', f_storage_path = ''bob/0b1e.txt''\<rparr>
       (Some (JStr ''file-1'')) ''File uploaded successfully''"
proof -
  have other: "c_project_id \<lparr>c_id = ''c2'', c_project_id = ''p2''\<rparr> \<noteq> ''p1''" by simp
  have denied: "\<not> rls_permits demo_store (Some ''alice'') Insert Messages
        (Message_row \<lparr>m_chat_id = ''c2'', m_role = ''assistant'', m_content = ''Hello.''\<rparr>)"
    by (simp add: rls_permits_def policies_def demo_store_def)
  have run: "chat_completion demo_env (hi_request ''alice'' ''p1'' ''c2'') demo_store =
     (Completion_ok (Some (JStr ''Hello.'')) (Some (JObj [(''total_tokens'', JNum 9)])),
      [Select_project (Some (JStr ''p1'')), Post_completion ''sk-test'' terse_call,
       Insert_message (Some (JStr ''c2'')) ''assistant'' (Some (JStr ''Hello.''))],
      demo_store\<lparr>messages :=
        [\<lparr>m_chat_id = ''c2'', m_role = ''assistant'', m_content = ''Hello.''\<rparr>]\<rparr>)"
    by (simp add: relay_defs demo_defs)
  have upr: "reply (upload_file demo_env (notes_request ''bob'' ''p3'') demo_store) =
     Upload_ok \<lparr>f_project_id = ''p3'', f_name = ''notes.txt'', f_size = 5120,
                f_type = ''text/plain'', f_storage_path = ''bob/0b1e.txt''\<rparr>
       (Some (JStr ''file-1'')) ''File uploaded successfully''"
    by (simp add: relay_defs demo_defs Let_def)
  from relays_ignore_ownership
         [where e = demo_env and req = "hi_request ''alice'' ''p1'' ''c2''" and u = "Some ''bob''"
            and owner_of = "\<lambda>p. ''bob''" and project_of = "\<lambda>c. ''p1''" and st = demo_store]
  have same: "chat_completion demo_env ((hi_request ''alice'' ''p1'' ''c2'')\<lparr>req_auth_uid := Some ''bob''\<rparr>)
       (reassign (\<lambda>p. ''bob'') (\<lambda>c. ''p1'') demo_store) =
     (case chat_completion demo_env (hi_request ''alice'' ''p1'' ''c2'') demo_store of
        (r, fx, st') \<Rightarrow> (r, fx, reassign (\<lambda>p. ''bob'') (\<lambda>c. ''p1'') st'))"
    by simp
  from relays_ignore_ownership
         [where e = demo_env and req = "notes_request ''bob'' ''p3''" and u = "Some ''carol''"
            and owner_of = "\<lambda>p. ''bob''" and project_of = "\<lambda>c. ''p1''" and st = demo_store]
  have same_up: "upload_file demo_env ((notes_request ''bob'' ''p3'')\<lparr>req_auth_uid := Some ''carol''\<rparr>)
            (reassign (\<lambda>p. ''bob'') (\<lambda>c. ''p1'') demo_store) =
     (case upload_file demo_env (notes_request ''bob'' ''p3'') demo_store of
        (r, fx, st') \<Rightarrow> (r, fx, reassign (\<lambda>p. ''bob'') (\<lambda>c. ''p1'') st'))"
    by simp
  from same_up upr have upr': "reply (upload_file demo_env ((notes_request ''bob'' ''p3'')\<lparr>req_auth_uid := Some ''carol''\<rparr>)
            (reassign (\<lambda>p. ''bob'') (\<lambda>c. ''p1'') demo_store)) =
     Upload_ok \<lparr>f_project_id = ''p3'', f_name = ''notes.txt'', f_size = 5120,
                f_type = ''text/plain'', f_storage_path = ''bob/0b1e.txt''\<rparr>
       (Some (JStr ''file-1'')) ''File uploaded successfully''"
    by (auto simp: reply_def split: prod.splits)
  from same run have same': "chat_completion demo_env ((hi_request ''alice'' ''p1'' ''c2'')\<lparr>req_auth_uid := Some ''bob''\<rparr>)
       (reassign (\<lambda>p. ''bob'') (\<lambda>c. ''p1'') demo_store) =
     (Completion_ok (Some (JStr ''Hello.'')) (Some (JObj [(''total_tokens'', JNum 9)])),
      [Select_project (Some (JStr ''p1'')), Post_completion ''sk-test'' terse_call,
       Insert_message (Some (JStr ''c2'')) ''assistant'' (Some (JStr ''Hello.''))],
      reassign (\<lambda>p. ''bob'') (\<lambda>c. ''p1'')
        (demo_store\<lparr>messages :=
           [\<lparr>m_chat_id = ''c2'', m_role = ''assistant'', m_content = ''Hello.''\<rparr>]\<rparr>))"
    by simp
  from other denied run same' upr upr' show ?thesis by blast
qed

text \<open>
  C9 (as amended). Message rows are role-constrained: the role of every stored Message
  row is \<^verbatim>\<open>user\<close> or \<^verbatim>\<open>assistant\<close>, enforced by the check constraint of
  the table on every insert (an insert that succeeds adds exactly one row, whose role
  passes the check) and kept by the insert of the relay, by the save of the client, by
  both relays and by the deletion of a project. The
  row-level-security policy set for messages defines only a SELECT and an INSERT
  policy, so an UPDATE or a DELETE statement of a requester on the messages table
  changes and removes no row.
\<close>

theorem message_rows_role_constrained:
  "map pol_command (filter (\<lambda>p. pol_table p = Messages) policies) = [Select, Insert] \<and>
   requester_update_message st uid old new = st \<and>
   requester_delete_message st uid old = st \<and>
   (roles_ok st \<and> insert_message e st chat role content = Some st' \<longrightarrow>
      roles_ok st' \<and> (\<exists>m. messages st' = messages st @ [m] \<and> role_check (m_role m))) \<and>
   (roles_ok st \<and> send_message_save e st uid chat_id userMessage = Some st'' \<longrightarrow> roles_ok st'') \<and>
   (roles_ok st \<longrightarrow> roles_ok (store_after (chat_completion e req st))) \<and>
   (roles_ok st \<longrightarrow> roles_ok (store_after (upload_file e req st))) \<and>
   (roles_ok st \<longrightarrow> roles_ok (delete_project e st uid projectId))"
proof -
  have pol: "map pol_command (filter (\<lambda>p. pol_table p = Messages) policies) = [Select, Insert]"
    by (simp add: policies_def)
  have upd: "requester_update_message st uid old new = st"
    by (simp add: requester_update_message_def no_update_policy)
  have del: "requester_delete_message st uid old = st"
    by (simp add: requester_delete_message_def no_delete_policy)
  have snd: "roles_ok st \<and> send_message_save e st uid chat_id userMessage = Some st'' \<longrightarrow> roles_ok st''"
    using add_message_roles [of st _ st'']
    by (auto simp: send_message_save_def requester_insert_message_def
             split: if_splits option.splits)
  have upl: "roles_ok st \<longrightarrow> roles_ok (store_after (upload_file e req st))"
    by (simp add: roles_ok_def upload_file_messages)
  from pol upd del snd upl insert_message_roles [of st e chat role content st']
    chat_completion_roles [of st e req] delete_project_roles [of st e uid projectId]
  show ?thesis by blast
qed

theorem message_rows_role_constrained_witness:
  "roles_ok chatted_store \<and>
   insert_message demo_env chatted_store (Some (JStr ''c1'')) ''user'' (Some (JStr ''thanks'')) =
     Some (chatted_store\<lparr>messages := messages chatted_store @
             [\<lparr>m_chat_id = ''c1'', m_role = ''user'', m_content = ''thanks''\<rparr>]\<rparr>) \<and>
   roles_ok (chatted_store\<lparr>messages := messages chatted_store @
             [\<lparr>m_chat_id = ''c1'', m_role = ''user'', m_content = ''thanks''\<rparr>]\<rparr>) \<and>
   send_message_save demo_env chatted_store (Some ''alice'') ''c1'' ''thanks'' =
     Some (chatted_store\<lparr>messages := messages chatted_store @
             [\<lparr>m_chat_id = ''c1'', m_role = ''user'', m_content = ''thanks''\<rparr>]\<rparr>) \<and>
   insert_message demo_env chatted_store (Some (JStr ''c1'')) ''system'' (Some (JStr ''thanks'')) = None \<and>
   requester_update_message chatted_store (Some ''alice'')
     \<lparr>m_chat_id = ''c1'', m_role = ''user'', m_content = ''hi''\<rparr>
     \<lparr>m_chat_id = ''c1'', m_role = ''user'', m_content = ''bye''\<rparr> = chatted_store \<and>
   requester_delete_message chatted_store (Some ''alice'')
     \<lparr>m_chat_id = ''c1'', m_role = ''user'', m_content = ''hi''\<rparr> = chatted_store \<and>
   roles_ok (store_after (chat_completion demo_env (hi_request ''alice'' ''p1'' ''c1'') chatted_store)) \<and>
   roles_ok (store_after (upload_file demo_env (notes_request ''alice'' ''p1'') chatted_store)) \<and>
   roles_ok (delete_project demo_env chatted_store (Some ''alice'') ''p1'')"
proof -
  have inv: "roles_ok chatted_store"
    by (simp add: roles_ok_def chatted_store_def role_check_def)
  have ins: "insert_message demo_env chatted_store (Some (JStr ''c1'')) ''user'' (Some (JStr ''thanks'')) =
     Some (chatted_store\<lparr>messages := messages chatted_store @
             [\<lparr>m_chat_id = ''c1'', m_role = ''user'', m_content = ''thanks''\<rparr>]\<rparr>)"
    by (simp add: insert_message_def message_row_of_def add_message_def column_text_def
          demo_env_def spelled_id_def chatted_store_def demo_store_def role_check_def)
  have snd: "send_message_save demo_env chatted_store (Some ''alice'') ''c1'' ''thanks'' =
     Some (chatted_store\<lparr>messages := messages chatted_store @
             [\<lparr>m_chat_id = ''c1'', m_role = ''user'', m_content = ''thanks''\<rparr>]\<rparr>)"
    by (simp add: send_message_save_def requester_insert_message_def rls_permits_def policies_def
          message_row_of_def add_message_def column_text_def demo_env_def spelled_id_def
          chatted_store_def demo_store_def role_check_def)
  have rej: "insert_message demo_env chatted_store (Some (JStr ''c1'')) ''system'' (Some (JStr ''thanks'')) = None"
    by (simp add: insert_message_def message_row_of_def add_message_def column_text_def
          demo_env_def spelled_id_def role_check_def)
  from message_rows_role_constrained
         [where st = chatted_store and uid = "Some ''alice''"
            and old = "\<lparr>m_chat_id = ''c1'', m_role = ''user'', m_content = ''hi''\<rparr>"
            and new = "\<lparr>m_chat_id = ''c1'', m_role = ''user'', m_content = ''bye''\<rparr>"
            and chat = "Some (JStr ''c1'')" and role = "''user''"
            and content = "Some (JStr ''thanks'')"
            and st' = "chatted_store\<lparr>messages := messages chatted_store @
                 [\<lparr>m_chat_id = ''c1'', m_role = ''user'', m_content = ''thanks''\<rparr>]\<rparr>"
            and e = demo_env and req = "hi_request ''alice'' ''p1'' ''c1''"
            and projectId = "''p1''"]
       inv ins
  have a: "requester_update_message chatted_store (Some ''alice'')
       \<lparr>m_chat_id = ''c1'', m_role = ''user'', m_content = ''hi''\<rparr>
       \<lparr>m_chat_id = ''c1'', m_role = ''user'', m_content = ''bye''\<rparr> = chatted_store \<and>
     requester_delete_message chatted_store (Some ''alice'')
       \<lparr>m_chat_id = ''c1'', m_role = ''user'', m_content = ''hi''\<rparr> = chatted_store \<and>
     roles_ok (chatted_store\<lparr>messages := messages chatted_store @
             [\<lparr>m_chat_id = ''c1'', m_role = ''user'', m_content = ''thanks''\<rparr>]\<rparr>) \<and>
     roles_ok (store_after (chat_completion demo_env (hi_request ''alice'' ''p1'' ''c1'') chatted_store)) \<and>
     roles_ok (delete_project demo_env chatted_store (Some ''alice'') ''p1'')"
    by simp
  from message_rows_role_constrained
         [where st = chatted_store and e = demo_env and req = "notes_request ''alice'' ''p1''"]
       inv
  have b: "roles_ok (store_after (upload_file demo_env (notes_request ''alice'' ''p1'') chatted_store))"
    by simp
  from inv ins snd rej a b show ?thesis by simp
qed

text \<open>
  C9 as stated fails, message rows are not append-only: the owner's
  \<^verbatim>\<open>deleteProject\<close> removes the messages of the project's chats, through
  \<^verbatim>\<open>ON DELETE CASCADE\<close>.
\<close>

theorem owner_delete_cascades_to_messages:
  "messages chatted_store =
     [\<lparr>m_chat_id = ''c1'', m_role = ''user'', m_content = ''hi''\<rparr>,
      \<lparr>m_chat_id = ''c1'', m_role = ''assistant'', m_content = ''Hello.''\<rparr>] \<and>
   messages (delete_project demo_env chatted_store (Some ''alice'') ''p1'') = []"
  by (simp add: chatted_store_def demo_store_def demo_env_def spelled_id_def delete_project_def
        rls_permits_def policies_def Let_def)

end
